theory Spec2Isabelle
  imports Main "HOL-Library.Word"
begin

unbundle bit_operations_syntax

section \<open>WASI types used by the Unix provider\<close>

subsection \<open>Rights (rights.go)\<close>

text \<open>\<open>type Rights uint64\<close>; the named rights are \<open>1 << iota\<close> in declaration order.\<close>

type_synonym Rights = "64 word"

definition FDDataSyncRight :: Rights where "FDDataSyncRight = push_bit 0 1"
definition FDReadRight :: Rights where "FDReadRight = push_bit 1 1"
definition FDSeekRight :: Rights where "FDSeekRight = push_bit 2 1"
definition FDStatSetFlagsRight :: Rights where "FDStatSetFlagsRight = push_bit 3 1"
definition FDSyncRight :: Rights where "FDSyncRight = push_bit 4 1"
definition FDTellRight :: Rights where "FDTellRight = push_bit 5 1"
definition FDWriteRight :: Rights where "FDWriteRight = push_bit 6 1"
definition FDAdviseRight :: Rights where "FDAdviseRight = push_bit 7 1"
definition FDAllocateRight :: Rights where "FDAllocateRight = push_bit 8 1"
definition PathCreateDirectoryRight :: Rights where "PathCreateDirectoryRight = push_bit 9 1"
definition PathCreateFileRight :: Rights where "PathCreateFileRight = push_bit 10 1"
definition PathLinkSourceRight :: Rights where "PathLinkSourceRight = push_bit 11 1"
definition PathLinkTargetRight :: Rights where "PathLinkTargetRight = push_bit 12 1"
definition PathOpenRight :: Rights where "PathOpenRight = push_bit 13 1"
definition FDReadDirRight :: Rights where "FDReadDirRight = push_bit 14 1"
definition PathReadLinkRight :: Rights where "PathReadLinkRight = push_bit 15 1"
definition PathRenameSourceRight :: Rights where "PathRenameSourceRight = push_bit 16 1"
definition PathRenameTargetRight :: Rights where "PathRenameTargetRight = push_bit 17 1"
definition PathFileStatGetRight :: Rights where "PathFileStatGetRight = push_bit 18 1"
definition PathFileStatSetSizeRight :: Rights where "PathFileStatSetSizeRight = push_bit 19 1"
definition PathFileStatSetTimesRight :: Rights where "PathFileStatSetTimesRight = push_bit 20 1"
definition FDFileStatGetRight :: Rights where "FDFileStatGetRight = push_bit 21 1"
definition FDFileStatSetSizeRight :: Rights where "FDFileStatSetSizeRight = push_bit 22 1"
definition FDFileStatSetTimesRight :: Rights where "FDFileStatSetTimesRight = push_bit 23 1"
definition PathSymlinkRight :: Rights where "PathSymlinkRight = push_bit 24 1"
definition PathRemoveDirectoryRight :: Rights where "PathRemoveDirectoryRight = push_bit 25 1"
definition PathUnlinkFileRight :: Rights where "PathUnlinkFileRight = push_bit 26 1"
definition PollFDReadWriteRight :: Rights where "PollFDReadWriteRight = push_bit 27 1"
definition SockShutdownRight :: Rights where "SockShutdownRight = push_bit 28 1"
definition SockAcceptRight :: Rights where "SockAcceptRight = push_bit 29 1"

definition AllRights :: Rights where "AllRights = push_bit 30 1 - 1"

definition ReadRights :: Rights where
  "ReadRights = FDReadRight OR FDReadDirRight"

definition WriteRights :: Rights where
  "WriteRights = FDWriteRight OR FDAllocateRight OR PathFileStatSetSizeRight OR FDDataSyncRight"

text \<open>\<open>Has\<close>: all of the given bits are set. \<open>HasAny\<close>: at least one of them is.\<close>

definition Has :: "Rights \<Rightarrow> Rights \<Rightarrow> bool" where
  "Has flags f = (flags AND f = f)"

definition HasAny :: "Rights \<Rightarrow> Rights \<Rightarrow> bool" where
  "HasAny flags f = (flags AND f \<noteq> 0)"

subsection \<open>Flag sets declared outside the files at hand\<close>

text \<open>
  Modelled from the spec: the declarations of \<open>FDFlags\<close>, \<open>OpenFlags\<close>,
  \<open>LookupFlags\<close>, \<open>SubscriptionClockFlags\<close> and \<open>EventFDReadWriteFlags\<close> are missing.
  The spec names their bits (append, nonblock, sync, dsync, rsync; create, directory,
  exclusive, truncate; symlink-follow; abstime; hangup); the values are those of the WASI
  preview 1 ABI. Their \<open>Has\<close> method is the bitset idiom of \<open>Rights.Has\<close>: true iff
  all the given bits are set.
\<close>

type_synonym FDFlags = "16 word"

definition Append :: FDFlags where "Append = push_bit 0 1"
definition DSync :: FDFlags where "DSync = push_bit 1 1"
definition NonBlock :: FDFlags where "NonBlock = push_bit 2 1"
definition RSync :: FDFlags where "RSync = push_bit 3 1"
definition Sync :: FDFlags where "Sync = push_bit 4 1"

definition FDFlags_Has :: "FDFlags \<Rightarrow> FDFlags \<Rightarrow> bool" where
  "FDFlags_Has flags f = (flags AND f = f)"

type_synonym OpenFlags = "16 word"

definition OpenCreate :: OpenFlags where "OpenCreate = push_bit 0 1"
definition OpenDirectory :: OpenFlags where "OpenDirectory = push_bit 1 1"
definition OpenExclusive :: OpenFlags where "OpenExclusive = push_bit 2 1"
definition OpenTruncate :: OpenFlags where "OpenTruncate = push_bit 3 1"

definition OpenFlags_Has :: "OpenFlags \<Rightarrow> OpenFlags \<Rightarrow> bool" where
  "OpenFlags_Has flags f = (flags AND f = f)"

type_synonym LookupFlags = "32 word"

definition SymlinkFollow :: LookupFlags where "SymlinkFollow = push_bit 0 1"

definition LookupFlags_Has :: "LookupFlags \<Rightarrow> LookupFlags \<Rightarrow> bool" where
  "LookupFlags_Has flags f = (flags AND f = f)"

subsection \<open>Error numbers\<close>

text \<open>
  Modelled from the spec: the \<open>Errno\<close> enumeration and \<open>makeErrno\<close> are missing. The
  spec lists the error numbers in use and says of the mapping: a successful host call maps
  to \<open>ESUCCESS\<close>, each listed host failure maps to the error of the same name, an unknown
  failure maps to \<open>EIO\<close>. A host failure is a value of \<open>hosterr\<close>; Go's \<open>nil\<close> error is
  \<open>None\<close>.
\<close>

datatype Errno =
    ESUCCESS | EACCES | EAGAIN | EBADF | EBUSY | ECANCELED | EEXIST | EFAULT | EFBIG
  | EINTR | EINVAL | EIO | EISDIR | ELOOP | ENAMETOOLONG | ENFILE | ENOENT | ENOMEM
  | ENOSPC | ENOSYS | ENOTCAPABLE | ENOTDIR | ENOTEMPTY | ENOTSOCK | ENOTSUP | EPERM
  | EPIPE | ERANGE | EROFS | ESPIPE | ETIMEDOUT | EXDEV

datatype hosterr =
    HEACCES | HEAGAIN | HEBADF | HEBUSY | HEEXIST | HEFAULT | HEFBIG | HEINTR | HEINVAL
  | HEIO | HEISDIR | HELOOP | HENAMETOOLONG | HENFILE | HENOENT | HENOMEM | HENOSPC
  | HENOSYS | HENOTDIR | HENOTEMPTY | HENOTSUP | HEPERM | HEPIPE | HERANGE | HEROFS
  | HESPIPE | HETIMEDOUT | HEXDEV | HUnknown

fun hostErrno :: "hosterr \<Rightarrow> Errno" where
  "hostErrno HEACCES = EACCES"
| "hostErrno HEAGAIN = EAGAIN"
| "hostErrno HEBADF = EBADF"
| "hostErrno HEBUSY = EBUSY"
| "hostErrno HEEXIST = EEXIST"
| "hostErrno HEFAULT = EFAULT"
| "hostErrno HEFBIG = EFBIG"
| "hostErrno HEINTR = EINTR"
| "hostErrno HEINVAL = EINVAL"
| "hostErrno HEIO = EIO"
| "hostErrno HEISDIR = EISDIR"
| "hostErrno HELOOP = ELOOP"
| "hostErrno HENAMETOOLONG = ENAMETOOLONG"
| "hostErrno HENFILE = ENFILE"
| "hostErrno HENOENT = ENOENT"
| "hostErrno HENOMEM = ENOMEM"
| "hostErrno HENOSPC = ENOSPC"
| "hostErrno HENOSYS = ENOSYS"
| "hostErrno HENOTDIR = ENOTDIR"
| "hostErrno HENOTEMPTY = ENOTEMPTY"
| "hostErrno HENOTSUP = ENOTSUP"
| "hostErrno HEPERM = EPERM"
| "hostErrno HEPIPE = EPIPE"
| "hostErrno HERANGE = ERANGE"
| "hostErrno HEROFS = EROFS"
| "hostErrno HESPIPE = ESPIPE"
| "hostErrno HETIMEDOUT = ETIMEDOUT"
| "hostErrno HEXDEV = EXDEV"
| "hostErrno HUnknown = EIO"

definition makeErrno :: "hosterr option \<Rightarrow> Errno" where
  "makeErrno err = (case err of None \<Rightarrow> ESUCCESS | Some e \<Rightarrow> hostErrno e)"

subsection \<open>File types and descriptor status\<close>

datatype FileType =
    UnknownType | BlockDeviceType | CharacterDeviceType | DirectoryType
  | RegularFileType | SocketDGramType | SocketStreamType | SymbolicLinkType

record FDStat =
  FileType :: FileType
  Flags :: FDFlags
  RightsBase :: Rights
  RightsInheriting :: Rights

subsection \<open>Directory entries\<close>

text \<open>
  An \<open>os.DirEntry\<close> is read through \<open>Name()\<close> and \<open>Info()\<close>; of the \<open>FileInfo\<close>
  only the \<open>Mode\<close> and \<open>Ino\<close> of its \<open>Stat_t\<close> are used. \<open>Info()\<close> of a host entry
  may fail; that of a \<open>statDirEntry\<close> returns the stored info.
\<close>

record Stat_t =
  Mode :: "32 word"
  Ino :: "64 word"

record osDirEntry =
  de_Name :: string
  de_Info :: "hosterr + Stat_t"

definition statDirEntry :: "string \<Rightarrow> Stat_t \<Rightarrow> osDirEntry" where
  "statDirEntry name info = \<lparr>de_Name = name, de_Info = Inr info\<rparr>"

record DirEntry =
  Next :: "64 word"
  INode :: "64 word"
  NameLength :: "32 word"
  Type :: FileType

record DirEntryName =
  Entry :: DirEntry
  Name :: string

text \<open>
  Modelled from the spec: \<open>wasi.DirEntry\<close> is declared outside the files at hand; the
  spec counts \<open>sizeof(DirEntry)\<close> bytes per entry. With the fields above (two 64-bit
  words, a 32-bit length, a one-byte type, padded to 8) that is 24.
\<close>

definition sizeof_DirEntry :: int where
  "sizeof_DirEntry = 24"

section \<open>The provider state\<close>

record fdinfo =
  path :: string
  fd :: int
  stat :: FDStat
  dirEntries :: "osDirEntry list"

record PollFd =
  Fd :: "32 word"
  Events :: "16 word"
  Revents :: "16 word"

subsection \<open>The descriptor table\<close>

text \<open>
  Modelled from the spec: \<open>descriptor.Table\<close> is missing. The spec (4.1, 9) describes a
  dense growable sequence of optional slots: \<open>insert\<close> takes the smallest non-negative
  slot not in use, \<open>assign\<close> places an entry at an explicit slot, growing the table if
  needed, and returns the prior occupant if any, \<open>lookup\<close> and \<open>delete\<close> act on one slot.
  Slot numbers are non-negative; a negative number is never in use, and \<open>assign\<close> to one is
  outside what the spec describes (\<open>None\<close> here).
\<close>

type_synonym 'a Table = "'a option list"

definition Table_Lookup :: "'a Table \<Rightarrow> int \<Rightarrow> 'a option" where
  "Table_Lookup t k = (if 0 \<le> k \<and> nat k < length t then t ! nat k else None)"

definition Table_Delete :: "'a Table \<Rightarrow> int \<Rightarrow> 'a Table" where
  "Table_Delete t k = (if 0 \<le> k \<and> nat k < length t then t[nat k := None] else t)"

fun first_free :: "'a Table \<Rightarrow> nat" where
  "first_free [] = 0"
| "first_free (None # t) = 0"
| "first_free (Some v # t) = Suc (first_free t)"

definition Table_Insert :: "'a Table \<Rightarrow> 'a \<Rightarrow> 'a Table \<times> int" where
  "Table_Insert t v =
     (let i = first_free t
      in (if i < length t then t[i := Some v] else t @ [Some v], int i))"

definition Table_Assign :: "'a Table \<Rightarrow> int \<Rightarrow> 'a \<Rightarrow> ('a Table \<times> 'a option) option" where
  "Table_Assign t k v =
     (if k < 0 then None
      else let i = nat k; t1 = t @ replicate (Suc i - length t) None
           in Some (t1[i := Some v], t1 ! i))"

subsection \<open>Provider\<close>

text \<open>
  The table holds pointers (\<open>*fdinfo\<close>): a slot holds a reference, and \<open>store\<close> maps
  each reference to the \<open>fdinfo\<close> it points to, so that two slots may share one
  \<open>fdinfo\<close>, as they do after \<open>FDRenumber\<close>. \<open>next_ref\<close> is the next unused reference.
  The fields the modelled operations never read (arguments, environment, clocks, hooks,
  entropy) are left out.
\<close>

record Provider =
  store :: "nat \<Rightarrow> fdinfo"
  next_ref :: nat
  fds :: "nat Table"
  preopens :: "unit Table"
  pollfds :: "PollFd list"

definition new_fdinfo :: "Provider \<Rightarrow> fdinfo \<Rightarrow> Provider \<times> nat" where
  "new_fdinfo p f =
     (p\<lparr>store := (store p)(next_ref p := f), next_ref := Suc (next_ref p)\<rparr>, next_ref p)"

subsection \<open>The host\<close>

text \<open>
  Host calls are answered by an oracle, one function per call; each operation returns, with
  its result and the new provider state, the list of host calls it made, in order. The
  constants are those of \<open>golang.org/x/sys/unix\<close> on linux/amd64.
\<close>

datatype syscall =
    SysClose int
  | SysFcntlGetFL int
  | SysFcntlSetFL int int
  | SysOpenat int string int "32 word"
  | SysLseek int int int
  | OsReadDir string
  | OsStat string
  | SysPoll "PollFd list" int
  | TimerSleep int

record host =
  sys_close :: "int \<Rightarrow> hosterr option"
  sys_fcntl_getfl :: "int \<Rightarrow> hosterr + int"
  sys_fcntl_setfl :: "int \<Rightarrow> int \<Rightarrow> hosterr option"
  sys_openat :: "int \<Rightarrow> string \<Rightarrow> int \<Rightarrow> 32 word \<Rightarrow> hosterr + int"
  sys_lseek :: "int \<Rightarrow> int \<Rightarrow> int \<Rightarrow> int \<times> hosterr option"
  os_ReadDir :: "string \<Rightarrow> hosterr + osDirEntry list"
  os_Stat :: "string \<Rightarrow> hosterr + Stat_t"
  sys_poll :: "PollFd list \<Rightarrow> int \<Rightarrow> hosterr + int \<times> (nat \<Rightarrow> 16 word)"
  ctx_sleep :: "int \<Rightarrow> hosterr option"

definition O_RDONLY :: int where "O_RDONLY = 0"
definition O_WRONLY :: int where "O_WRONLY = 1"
definition O_RDWR :: int where "O_RDWR = 2"
definition O_CREAT :: int where "O_CREAT = 64"
definition O_EXCL :: int where "O_EXCL = 128"
definition O_TRUNC :: int where "O_TRUNC = 512"
definition O_APPEND :: int where "O_APPEND = 1024"
definition O_NONBLOCK :: int where "O_NONBLOCK = 2048"
definition O_DSYNC :: int where "O_DSYNC = 4096"
definition O_DIRECTORY :: int where "O_DIRECTORY = 65536"
definition O_NOFOLLOW :: int where "O_NOFOLLOW = 131072"
definition O_CLOEXEC :: int where "O_CLOEXEC = 524288"
definition O_SYNC :: int where "O_SYNC = 1052672"

definition SEEK_SET :: int where "SEEK_SET = 0"
definition SEEK_CUR :: int where "SEEK_CUR = 1"
definition SEEK_END :: int where "SEEK_END = 2"

definition POLLIN :: "16 word" where "POLLIN = 1"
definition POLLOUT :: "16 word" where "POLLOUT = 4"
definition POLLERR :: "16 word" where "POLLERR = 8"
definition POLLHUP :: "16 word" where "POLLHUP = 16"

section \<open>Descriptor lookup\<close>

definition Preopen :: "Provider \<Rightarrow> int \<Rightarrow> string \<Rightarrow> FDStat \<Rightarrow> Provider" where
  "Preopen p hostfd pth fdstat =
     (let fdstat = fdstat\<lparr>RightsBase := RightsBase fdstat AND AllRights\<rparr>;
          fdstat = fdstat\<lparr>RightsInheriting := RightsInheriting fdstat AND AllRights\<rparr>;
          (p, a) = new_fdinfo p \<lparr>path = pth, fd = hostfd, stat = fdstat, dirEntries = []\<rparr>;
          (t, k) = Table_Insert (fds p) a
      in case Table_Assign (preopens p) k () of
           None \<Rightarrow> p\<lparr>fds := t\<rparr>
         | Some (t', prev) \<Rightarrow> p\<lparr>fds := t, preopens := t'\<rparr>)"

definition isPreopen :: "Provider \<Rightarrow> int \<Rightarrow> bool" where
  "isPreopen p gfd = (case Table_Lookup (preopens p) gfd of None \<Rightarrow> False | Some u \<Rightarrow> True)"

definition lookupFD :: "Provider \<Rightarrow> int \<Rightarrow> Rights \<Rightarrow> Errno + nat" where
  "lookupFD p guestfd rights =
     (case Table_Lookup (fds p) guestfd of
        None \<Rightarrow> Inl EBADF
      | Some f \<Rightarrow>
          if \<not> Has (RightsBase (stat (store p f))) rights then Inl ENOTCAPABLE
          else Inr f)"

definition lookupPreopenFD :: "Provider \<Rightarrow> int \<Rightarrow> Rights \<Rightarrow> Errno + nat" where
  "lookupPreopenFD p guestfd rights =
     (if \<not> isPreopen p guestfd then Inl EBADF
      else case lookupFD p guestfd rights of
             Inl errno \<Rightarrow> Inl errno
           | Inr f \<Rightarrow>
               if FileType (stat (store p f)) \<noteq> DirectoryType then Inl ENOTDIR
               else Inr f)"

definition lookupSocketFD :: "Provider \<Rightarrow> int \<Rightarrow> Rights \<Rightarrow> Errno + nat" where
  "lookupSocketFD p guestfd rights =
     (case lookupFD p guestfd rights of
        Inl errno \<Rightarrow> Inl errno
      | Inr f \<Rightarrow>
          (case FileType (stat (store p f)) of
             SocketStreamType \<Rightarrow> Inr f
           | SocketDGramType \<Rightarrow> Inr f
           | _ \<Rightarrow> Inl ENOTSOCK))"

section \<open>Descriptor operations\<close>

definition FDClose :: "host \<Rightarrow> Provider \<Rightarrow> int \<Rightarrow> Errno \<times> Provider \<times> syscall list" where
  "FDClose h p gfd =
     (case lookupFD p gfd 0 of
        Inl errno \<Rightarrow> (errno, p, [])
      | Inr f \<Rightarrow>
          let hfd = fd (store p f);
              p = p\<lparr>fds := Table_Delete (fds p) gfd\<rparr>;
              p = p\<lparr>preopens := Table_Delete (preopens p) gfd\<rparr>;
              err = sys_close h hfd
          in (makeErrno err, p, [SysClose hfd]))"

definition FDStatGet :: "Provider \<Rightarrow> int \<Rightarrow> FDStat option \<times> Errno" where
  "FDStatGet p gfd =
     (case lookupFD p gfd 0 of
        Inl errno \<Rightarrow> (None, errno)
      | Inr f \<Rightarrow> (Some (stat (store p f)), ESUCCESS))"

definition set_stat :: "Provider \<Rightarrow> nat \<Rightarrow> FDStat \<Rightarrow> Provider" where
  "set_stat p f st = p\<lparr>store := (store p)(f := (store p f)\<lparr>stat := st\<rparr>)\<rparr>"

definition FDStatSetFlags :: "host \<Rightarrow> Provider \<Rightarrow> int \<Rightarrow> FDFlags \<Rightarrow> Errno \<times> Provider \<times> syscall list" where
  "FDStatSetFlags h p gfd flags =
     (case lookupFD p gfd FDStatSetFlagsRight of
        Inl errno \<Rightarrow> (errno, p, [])
      | Inr f \<Rightarrow>
          let st = stat (store p f); hfd = fd (store p f); changes = flags XOR Flags st
          in if changes = 0 then (ESUCCESS, p, [])
             else if FDFlags_Has changes (Sync OR DSync OR RSync) then (ENOSYS, p, [])
             else (case sys_fcntl_getfl h hfd of
                     Inl err \<Rightarrow> (makeErrno (Some err), p, [SysFcntlGetFL hfd])
                   | Inr fl \<Rightarrow>
                       let fl = (if FDFlags_Has flags Append then fl OR O_APPEND
                                 else fl AND NOT O_APPEND);
                           fl = (if FDFlags_Has flags NonBlock then fl OR O_NONBLOCK
                                 else fl AND NOT O_NONBLOCK)
                       in (case sys_fcntl_setfl h hfd fl of
                             Some err \<Rightarrow>
                               (makeErrno (Some err), p, [SysFcntlGetFL hfd, SysFcntlSetFL hfd fl])
                           | None \<Rightarrow>
                               (ESUCCESS, set_stat p f (st\<lparr>Flags := Flags st XOR changes\<rparr>),
                                [SysFcntlGetFL hfd, SysFcntlSetFL hfd fl]))))"

definition FDStatSetRights :: "Provider \<Rightarrow> int \<Rightarrow> Rights \<Rightarrow> Rights \<Rightarrow> Errno \<times> Provider" where
  "FDStatSetRights p gfd rightsBase rightsInheriting =
     (case lookupFD p gfd 0 of
        Inl errno \<Rightarrow> (errno, p)
      | Inr f \<Rightarrow>
          let st = stat (store p f);
              rightsBase = rightsBase AND AllRights;
              rightsInheriting = rightsInheriting AND AllRights
          in if rightsBase AND NOT (RightsBase st) \<noteq> 0 then (ENOTCAPABLE, p)
             else if rightsInheriting AND NOT (RightsInheriting st) \<noteq> 0 then (ENOTCAPABLE, p)
             else (ESUCCESS,
                   set_stat p f
                     (st\<lparr>RightsBase := RightsBase st AND rightsBase,
                         RightsInheriting := RightsInheriting st AND rightsInheriting\<rparr>)))"

text \<open>
  \<open>FDRenumber\<close>: \<open>Assign\<close> stores the reference at \<open>to\<close>; slot \<open>from\<close> is not
  deleted. The result of closing the evicted handle is dropped. \<open>None\<close>: the table was
  asked to assign a negative slot.
\<close>

definition FDRenumber :: "Provider \<Rightarrow> int \<Rightarrow> int \<Rightarrow> (Errno \<times> Provider \<times> syscall list) option" where
  "FDRenumber p from to =
     (if isPreopen p from \<or> isPreopen p to then Some (ENOTSUP, p, [])
      else case lookupFD p from 0 of
             Inl errno \<Rightarrow> Some (errno, p, [])
           | Inr f \<Rightarrow>
               (case Table_Assign (fds p) to f of
                  None \<Rightarrow> None
                | Some (t, None) \<Rightarrow> Some (ENOSYS, p\<lparr>fds := t\<rparr>, [])
                | Some (t, Some g) \<Rightarrow>
                    Some (ENOSYS, p\<lparr>fds := t\<rparr>, [SysClose (fd (store p g))])))"

subsection \<open>Seek and tell\<close>

text \<open>
  Modelled from the spec: \<open>Whence\<close> is declared outside the files at hand; it is one of
  \<open>SeekStart\<close>, \<open>SeekCurrent\<close>, \<open>SeekEnd\<close> (0, 1, 2 in the WASI ABI), any other value
  being invalid. \<open>FileDelta\<close> is a signed and \<open>FileSize\<close> an unsigned 64-bit integer.
\<close>

type_synonym Whence = "8 word"

definition SeekStart :: Whence where "SeekStart = 0"
definition SeekCurrent :: Whence where "SeekCurrent = 1"
definition SeekEnd :: Whence where "SeekEnd = 2"

definition fdseek ::
  "host \<Rightarrow> Provider \<Rightarrow> int \<Rightarrow> Rights \<Rightarrow> 64 word \<Rightarrow> Whence \<Rightarrow> (64 word \<times> Errno) \<times> syscall list" where
  "fdseek h p gfd rights delta whence =
     (case lookupFD p gfd rights of
        Inl errno \<Rightarrow> ((0, errno), [])
      | Inr f \<Rightarrow>
          if whence \<noteq> SeekStart \<and> whence \<noteq> SeekCurrent \<and> whence \<noteq> SeekEnd
          then ((0, EINVAL), [])
          else let sysWhence = (if whence = SeekStart then SEEK_SET
                                else if whence = SeekCurrent then SEEK_CUR
                                else SEEK_END);
                   hfd = fd (store p f);
                   (off, err) = sys_lseek h hfd (sint delta) sysWhence
               in ((word_of_int off, makeErrno err), [SysLseek hfd (sint delta) sysWhence]))"

definition FDSeek ::
  "host \<Rightarrow> Provider \<Rightarrow> int \<Rightarrow> 64 word \<Rightarrow> Whence \<Rightarrow> (64 word \<times> Errno) \<times> syscall list" where
  "FDSeek h p gfd delta whence = fdseek h p gfd FDSeekRight delta whence"

definition FDTell :: "host \<Rightarrow> Provider \<Rightarrow> int \<Rightarrow> (64 word \<times> Errno) \<times> syscall list" where
  "FDTell h p gfd = fdseek h p gfd FDTellRight 0 SeekCurrent"

section \<open>Paths\<close>

text \<open>
  \<open>strings.HasPrefix\<close>, \<open>filepath.Clean\<close> and \<open>filepath.Join\<close> of the Go standard
  library, for Unix paths. \<open>Clean\<close> follows the library's loop: \<open>out\<close> is the output
  written so far, \<open>dotdot\<close> the index up to which \<open>out\<close> may not be backed over, and
  the remaining input is consumed one path element at a time.
\<close>

definition HasPrefix :: "string \<Rightarrow> string \<Rightarrow> bool" where
  "HasPrefix s prefix = (take (length prefix) s = prefix)"

fun backup :: "string \<Rightarrow> nat \<Rightarrow> nat \<Rightarrow> nat" where
  "backup buf dotdot w =
     (if dotdot < w \<and> buf ! w \<noteq> CHR ''/'' then backup buf dotdot (w - 1) else w)"

declare backup.simps [simp del]

function clean_loop :: "bool \<Rightarrow> string \<Rightarrow> string \<Rightarrow> nat \<Rightarrow> string" where
  "clean_loop rooted [] out dotdot = out"
| "clean_loop rooted (c # cs) out dotdot =
     (if c = CHR ''/'' then clean_loop rooted cs out dotdot
      else if c = CHR ''.'' \<and> (cs = [] \<or> hd cs = CHR ''/'') then clean_loop rooted cs out dotdot
      else if c = CHR ''.'' \<and> hd cs = CHR ''.'' \<and> (tl cs = [] \<or> hd (tl cs) = CHR ''/'') then
        (if dotdot < length out then
           clean_loop rooted (tl cs) (take (backup out dotdot (length out - 1)) out) dotdot
         else if \<not> rooted then
           (let out = (if 0 < length out then out @ ''/'' else out) @ ''..''
            in clean_loop rooted (tl cs) out (length out))
         else clean_loop rooted (tl cs) out dotdot)
      else
        (let out = (if rooted \<and> length out \<noteq> 1 \<or> \<not> rooted \<and> length out \<noteq> 0
                    then out @ ''/'' else out)
         in clean_loop rooted (dropWhile (\<lambda>x. x \<noteq> CHR ''/'') cs)
              (out @ c # takeWhile (\<lambda>x. x \<noteq> CHR ''/'') cs) dotdot))"
  by pat_completeness auto
termination
  by (relation "measure (\<lambda>(rooted, inp, out, dotdot). length inp)")
     (auto simp: less_Suc_eq_le length_dropWhile_le)

definition Clean :: "string \<Rightarrow> string" where
  "Clean pth =
     (if pth = [] then ''.''
      else let rooted = (hd pth = CHR ''/'');
               out = (if rooted then clean_loop True (tl pth) ''/'' 1
                      else clean_loop False pth [] 0)
           in if out = [] then ''.'' else out)"

definition Join :: "string \<Rightarrow> string \<Rightarrow> string" where
  "Join a b =
     (if a \<noteq> [] then Clean (a @ ''/'' @ b)
      else if b \<noteq> [] then Clean b
      else [])"

section \<open>PathOpen\<close>

text \<open>
  The host open flags, as \<open>PathOpen\<close> builds them once its capability checks have passed;
  \<open>rightsBase\<close> is the clipped set the access mode is chosen from.
\<close>

definition openat_flags :: "LookupFlags \<Rightarrow> OpenFlags \<Rightarrow> Rights \<Rightarrow> FDFlags \<Rightarrow> int" where
  "openat_flags lookupFlags openFlags rightsBase fdFlags =
     (let oflags = O_CLOEXEC;
          oflags = (if OpenFlags_Has openFlags OpenDirectory then oflags OR O_DIRECTORY else oflags);
          oflags = (if OpenFlags_Has openFlags OpenCreate then oflags OR O_CREAT else oflags);
          oflags = (if OpenFlags_Has openFlags OpenExclusive then oflags OR O_EXCL else oflags);
          oflags = (if OpenFlags_Has openFlags OpenTruncate then oflags OR O_TRUNC else oflags);
          oflags = (if FDFlags_Has fdFlags Append then oflags OR O_APPEND else oflags);
          oflags = (if FDFlags_Has fdFlags DSync then oflags OR O_DSYNC else oflags);
          oflags = (if FDFlags_Has fdFlags Sync then oflags OR O_SYNC else oflags);
          oflags = (if FDFlags_Has fdFlags NonBlock then oflags OR O_NONBLOCK else oflags);
          oflags = (if \<not> LookupFlags_Has lookupFlags SymlinkFollow then oflags OR O_NOFOLLOW
                    else oflags)
      in if OpenFlags_Has openFlags OpenDirectory then oflags OR O_RDONLY
         else if HasAny rightsBase ReadRights \<and> HasAny rightsBase WriteRights then oflags OR O_RDWR
         else if HasAny rightsBase ReadRights then oflags OR O_RDONLY
         else if HasAny rightsBase WriteRights then oflags OR O_WRONLY
         else oflags OR O_RDONLY)"

definition PathOpen ::
  "host \<Rightarrow> Provider \<Rightarrow> int \<Rightarrow> LookupFlags \<Rightarrow> string \<Rightarrow> OpenFlags \<Rightarrow> Rights \<Rightarrow> Rights \<Rightarrow> FDFlags
     \<Rightarrow> (int \<times> Errno) \<times> Provider \<times> syscall list" where
  "PathOpen h p gfd lookupFlags pth openFlags rightsBase rightsInheriting fdFlags =
     (case lookupFD p gfd PathOpenRight of
        Inl errno \<Rightarrow> ((- 1, errno), p, [])
      | Inr d \<Rightarrow>
          let dstat = stat (store p d); clean = Clean pth
          in if HasPrefix clean ''/'' \<or> HasPrefix clean ''../'' then ((- 1, EPERM), p, [])
             else
               let rightsBase = rightsBase AND AllRights;
                   rightsInheriting = rightsInheriting AND AllRights
               in if rightsBase AND NOT (RightsInheriting dstat) \<noteq> 0
                  then ((- 1, ENOTCAPABLE), p, [])
                  else if rightsInheriting AND NOT (RightsInheriting dstat) \<noteq> 0
                  then ((- 1, ENOTCAPABLE), p, [])
                  else
                    let rightsBase = rightsBase AND RightsInheriting dstat;
                        rightsInheriting = rightsInheriting AND RightsInheriting dstat;
                        rightsBase = (if OpenFlags_Has openFlags OpenDirectory
                                      then rightsBase AND NOT FDSeekRight else rightsBase)
                    in if OpenFlags_Has openFlags OpenCreate
                          \<and> \<not> Has (RightsBase dstat) PathCreateFileRight
                       then ((- 1, ENOTCAPABLE), p, [])
                       else if OpenFlags_Has openFlags OpenTruncate
                          \<and> \<not> Has (RightsBase dstat) PathFileStatSetSizeRight
                       then ((- 1, ENOTCAPABLE), p, [])
                       else
                         let oflags = openat_flags lookupFlags openFlags rightsBase fdFlags;
                             (fileType, mode) =
                               (if oflags AND O_DIRECTORY \<noteq> 0 then (DirectoryType, 0)
                                else (RegularFileType, 420));
                             dfd = fd (store p d)
                         in case sys_openat h dfd pth oflags mode of
                              Inl err \<Rightarrow>
                                ((- 1, makeErrno (Some err)), p, [SysOpenat dfd pth oflags mode])
                            | Inr hostfd \<Rightarrow>
                                let (p, f) = new_fdinfo p
                                      \<lparr>path = Join (path (store p d)) pth, fd = hostfd,
                                       stat = \<lparr>FileType = fileType, Flags = fdFlags,
                                               RightsBase = rightsBase,
                                               RightsInheriting = rightsInheriting\<rparr>,
                                       dirEntries = []\<rparr>;
                                    (t, guestfd) = Table_Insert (fds p) f
                                in ((guestfd, ESUCCESS), p\<lparr>fds := t\<rparr>,
                                    [SysOpenat dfd pth oflags mode]))"

section \<open>FDReadDir\<close>

text \<open>
  \<open>makeFileType\<close> is missing and taken as a parameter. The restart at cookie 0 stores the
  host listing, then appends \<open>.\<close> and \<open>..\<close>, each only if its \<open>os.Stat\<close> succeeds.
\<close>

definition set_dirEntries :: "Provider \<Rightarrow> nat \<Rightarrow> osDirEntry list \<Rightarrow> Provider" where
  "set_dirEntries p f es = p\<lparr>store := (store p)(f := (store p f)\<lparr>dirEntries := es\<rparr>)\<rparr>"

definition with_dot_entries :: "host \<Rightarrow> string \<Rightarrow> osDirEntry list \<Rightarrow> osDirEntry list" where
  "with_dot_entries h pth entries =
     (let entries = (case os_Stat h pth of
                       Inr info \<Rightarrow> entries @ [statDirEntry ''.'' info]
                     | Inl err \<Rightarrow> entries);
          entries = (case os_Stat h (Join pth ''..'') of
                       Inr info \<Rightarrow> entries @ [statDirEntry ''..'' info]
                     | Inl err \<Rightarrow> entries)
      in entries)"

definition readdir_restart :: "host \<Rightarrow> Provider \<Rightarrow> nat \<Rightarrow> Errno option \<times> Provider \<times> syscall list" where
  "readdir_restart h p f =
     (let pth = path (store p f)
      in case os_ReadDir h pth of
           Inl err \<Rightarrow> (Some (makeErrno (Some err)), p, [OsReadDir pth])
         | Inr entries \<Rightarrow>
             (None, set_dirEntries p f (with_dot_entries h pth entries),
              [OsReadDir pth, OsStat pth, OsStat (Join pth ''..'')]))"

definition make_DirEntryName :: "(32 word \<Rightarrow> FileType) \<Rightarrow> nat \<Rightarrow> string \<Rightarrow> Stat_t \<Rightarrow> DirEntryName" where
  "make_DirEntryName makeFileType pos name s =
     \<lparr>Entry = \<lparr>Next = of_nat (pos + 1), INode = Ino s, NameLength = of_nat (length name),
               Type = makeFileType (Mode s)\<rparr>,
      Name = name\<rparr>"

function readdir_loop ::
  "(32 word \<Rightarrow> FileType) \<Rightarrow> osDirEntry list \<Rightarrow> int \<Rightarrow> nat \<Rightarrow> int \<Rightarrow> DirEntryName list
     \<Rightarrow> DirEntryName list \<times> Errno" where
  "readdir_loop makeFileType entries bufferSizeBytes pos n buffer =
     (if pos < length entries \<and> n < bufferSizeBytes then
        (let e = entries ! pos; name = de_Name e
         in case de_Info e of
              Inl err \<Rightarrow> (buffer, makeErrno (Some err))
            | Inr s \<Rightarrow>
                readdir_loop makeFileType entries bufferSizeBytes (pos + 1)
                  (n + (sizeof_DirEntry + int (length name)))
                  (buffer @ [make_DirEntryName makeFileType pos name s]))
      else (buffer, ESUCCESS))"
  by pat_completeness auto
termination
  by (relation "measure (\<lambda>(mk, entries, lim, pos, n, buffer). length entries - pos)") auto

declare readdir_loop.simps [simp del]

definition MaxInt :: "64 word" where
  "MaxInt = push_bit 63 1 - 1"

definition FDReadDir ::
  "host \<Rightarrow> (32 word \<Rightarrow> FileType) \<Rightarrow> Provider \<Rightarrow> int \<Rightarrow> DirEntryName list \<Rightarrow> int \<Rightarrow> 64 word
     \<Rightarrow> (DirEntryName list \<times> Errno) \<times> Provider \<times> syscall list" where
  "FDReadDir h makeFileType p gfd buffer bufferSizeBytes cookie =
     (case lookupFD p gfd FDReadDirRight of
        Inl errno \<Rightarrow> (([], errno), p, [])
      | Inr f \<Rightarrow>
          (case (if cookie = 0 then readdir_restart h p f else (None, p, [])) of
             (Some errno, p, calls) \<Rightarrow> ((buffer, errno), p, calls)
           | (None, p, calls) \<Rightarrow>
               if MaxInt < cookie then ((buffer, EINVAL), p, calls)
               else (readdir_loop makeFileType (dirEntries (store p f)) bufferSizeBytes
                       (unat cookie) 0 buffer, p, calls)))"

section \<open>PollOneOff\<close>

text \<open>
  Modelled from the spec: \<open>Subscription\<close>, \<open>Event\<close> and the clock identifiers are declared
  outside the files at hand. A subscription is tagged as a clock subscription or as a
  read or write subscription on a descriptor; \<open>GetClock\<close> and \<open>GetFDReadWrite\<close> read its
  two views. An event carries the user data and event type of its subscription, an error
  number, a byte count and flags. Clock identifiers, event types and flag bits are those of
  the WASI ABI. The event type is a byte: the source names three of its values, and neither
  of its loops excludes the others, so they are kept.
\<close>

type_synonym EventType = "8 word"

definition ClockEvent :: EventType where "ClockEvent = 0"
definition FDReadEvent :: EventType where "FDReadEvent = 1"
definition FDWriteEvent :: EventType where "FDWriteEvent = 2"

type_synonym ClockID = "32 word"

definition Realtime :: ClockID where "Realtime = 0"
definition Monotonic :: ClockID where "Monotonic = 1"
definition ProcessCPUTimeID :: ClockID where "ProcessCPUTimeID = 2"
definition ThreadCPUTimeID :: ClockID where "ThreadCPUTimeID = 3"

type_synonym SubscriptionClockFlags = "16 word"

definition Abstime :: SubscriptionClockFlags where "Abstime = push_bit 0 1"

definition SubscriptionClockFlags_Has :: "SubscriptionClockFlags \<Rightarrow> SubscriptionClockFlags \<Rightarrow> bool" where
  "SubscriptionClockFlags_Has flags f = (flags AND f = f)"

record SubscriptionClock =
  ID :: ClockID
  Timeout :: "64 word"
  Precision :: "64 word"
  ClockFlags :: SubscriptionClockFlags

record SubscriptionFDReadWrite =
  FD :: int

record Subscription =
  UserData :: "64 word"
  EventType :: EventType
  GetClock :: SubscriptionClock
  GetFDReadWrite :: SubscriptionFDReadWrite

definition Hangup :: "16 word" where "Hangup = push_bit 0 1"

record EventFDReadWrite =
  NBytes :: "64 word"
  EventFlags :: "16 word"

record Event =
  ev_UserData :: "64 word"
  ev_Errno :: Errno
  ev_EventType :: EventType
  FDReadWrite :: EventFDReadWrite

datatype 'a outcome = Panic string | Return 'a

text \<open>
  The first loop: the smallest clock timeout (a \<open>time.Duration\<close>, the timestamp read as a
  signed 64-bit integer) and the poll set, or the error number that aborts the call,
  with the poll set built so far. Its \<open>switch\<close> has no default: a subscription of any
  other event type is passed over.
\<close>

fun poll_subscribe ::
  "Provider \<Rightarrow> Subscription list \<Rightarrow> int \<Rightarrow> PollFd list \<Rightarrow> (Errno + int) \<times> PollFd list" where
  "poll_subscribe p [] timeout pfds = (Inr timeout, pfds)"
| "poll_subscribe p (s # ss) timeout pfds =
     (if EventType s = FDReadEvent \<or> EventType s = FDWriteEvent then
        (case lookupFD p (FD (GetFDReadWrite s)) PollFDReadWriteRight of
           Inl errno \<Rightarrow> (Inl errno, pfds)
         | Inr f \<Rightarrow>
             let pollevent = (if EventType s = FDWriteEvent then POLLOUT else POLLIN)
             in poll_subscribe p ss timeout
                  (pfds @ [\<lparr>Fd = word_of_int (fd (store p f)), Events = pollevent, Revents = 0\<rparr>]))
      else if EventType s = ClockEvent then
        (let c = GetClock s
         in if ID c \<noteq> Monotonic \<or> SubscriptionClockFlags_Has (ClockFlags c) Abstime
            then (Inl ENOSYS, pfds)
            else if timeout < 0 then poll_subscribe p ss (sint (Timeout c)) pfds
            else if 0 \<le> timeout \<and> sint (Timeout c) < timeout
            then poll_subscribe p ss (sint (Timeout c)) pfds
            else poll_subscribe p ss timeout pfds)
      else poll_subscribe p ss timeout pfds)"

definition make_Event :: "Subscription \<Rightarrow> PollFd \<Rightarrow> Event" where
  "make_Event s pf =
     (let e = \<lparr>ev_UserData = UserData s, ev_Errno = ESUCCESS, ev_EventType = EventType s,
               FDReadWrite = \<lparr>NBytes = 0, EventFlags = 0\<rparr>\<rparr>;
          e = (if EventType s = FDReadEvent \<and> Revents pf AND POLLIN \<noteq> 0
               then e\<lparr>FDReadWrite := (FDReadWrite e)\<lparr>NBytes := 1\<rparr>\<rparr> else e);
          e = (if EventType s = FDWriteEvent \<and> Revents pf AND POLLOUT \<noteq> 0
               then e\<lparr>FDReadWrite := (FDReadWrite e)\<lparr>NBytes := 1\<rparr>\<rparr> else e);
          e = (if Revents pf AND POLLERR \<noteq> 0 then e\<lparr>ev_Errno := ECANCELED\<rparr> else e);
          e = (if Revents pf AND POLLHUP \<noteq> 0
               then e\<lparr>FDReadWrite :=
                        (FDReadWrite e)\<lparr>EventFlags := EventFlags (FDReadWrite e) OR Hangup\<rparr>\<rparr>
               else e)
      in e)"

text \<open>
  The second loop reads the next poll slot for every subscription that is not a clock
  subscription; \<open>None\<close> is the run-time panic of indexing the poll set out of range.
\<close>

fun poll_events :: "PollFd list \<Rightarrow> Subscription list \<Rightarrow> nat \<Rightarrow> Event list \<Rightarrow> Event list option" where
  "poll_events pfds [] j events = Some events"
| "poll_events pfds (s # ss) j events =
     (if EventType s = ClockEvent then poll_events pfds ss j events
      else if length pfds \<le> j then None
      else if Revents (pfds ! j) = 0 then poll_events pfds ss (j + 1) events
      else poll_events pfds ss (j + 1) (events @ [make_Event s (pfds ! j)]))"

definition set_revents :: "(nat \<Rightarrow> 16 word) \<Rightarrow> PollFd list \<Rightarrow> PollFd list" where
  "set_revents revents pfds = map (\<lambda>(i, pf). pf\<lparr>Revents := revents i\<rparr>) (enumerate 0 pfds)"

definition PollOneOff ::
  "host \<Rightarrow> Provider \<Rightarrow> Subscription list \<Rightarrow> Event list
     \<Rightarrow> (Event list \<times> Errno) outcome \<times> Provider \<times> syscall list" where
  "PollOneOff h p subscriptions events =
     (if length subscriptions = 0 then (Return (events, EINVAL), p, [])
      else case poll_subscribe p subscriptions (- 1) [] of
             (Inl errno, pfds) \<Rightarrow> (Return (events, errno), p\<lparr>pollfds := pfds\<rparr>, [])
           | (Inr timeout, pfds) \<Rightarrow>
               if length pfds = 0 then
                 (if 0 \<le> timeout then
                    (case ctx_sleep h timeout of
                       Some err \<Rightarrow>
                         (Return (events, makeErrno (Some err)), p\<lparr>pollfds := pfds\<rparr>,
                          [TimerSleep timeout])
                     | None \<Rightarrow>
                         (Return (events, ESUCCESS), p\<lparr>pollfds := pfds\<rparr>, [TimerSleep timeout]))
                  else (Return (events, ESUCCESS), p\<lparr>pollfds := pfds\<rparr>, []))
               else
                 let timeoutMillis = (if timeout < 0 then - 1 else timeout div 1000000)
                 in case sys_poll h pfds timeoutMillis of
                      Inl err \<Rightarrow>
                        (Return (events, makeErrno (Some err)), p\<lparr>pollfds := pfds\<rparr>,
                         [SysPoll pfds timeoutMillis])
                    | Inr (n, revents) \<Rightarrow>
                        let polled = set_revents revents pfds
                        in case poll_events polled subscriptions 0 events of
                             None \<Rightarrow>
                               (Panic ''index out of range'', p\<lparr>pollfds := polled\<rparr>,
                                [SysPoll pfds timeoutMillis])
                           | Some events \<Rightarrow>
                               if n \<noteq> int (length events)
                               then (Panic ''unexpected unix.Poll result'',
                                     p\<lparr>pollfds := polled\<rparr>, [SysPoll pfds timeoutMillis])
                               else (Return (events, ESUCCESS), p\<lparr>pollfds := polled\<rparr>,
                                     [SysPoll pfds timeoutMillis]))"

section \<open>Notions used to state the properties\<close>

text \<open>Set inclusion of rights: every bit of \<open>a\<close> is a bit of \<open>b\<close>.\<close>

definition rights_subset :: "Rights \<Rightarrow> Rights \<Rightarrow> bool" where
  "rights_subset a b = (a AND NOT b = 0)"

subsection \<open>Example states and hosts\<close>

definition no_fdinfo :: fdinfo where
  "no_fdinfo = \<lparr>path = [], fd = - 1,
     stat = \<lparr>FileType = UnknownType, Flags = 0, RightsBase = 0, RightsInheriting = 0\<rparr>,
     dirEntries = []\<rparr>"

definition empty_Provider :: Provider where
  "empty_Provider =
     \<lparr>store = (\<lambda>r. no_fdinfo), next_ref = 0, fds = [], preopens = [], pollfds = []\<rparr>"

definition dir_stat :: FDStat where
  "dir_stat = \<lparr>FileType = DirectoryType, Flags = 0, RightsBase = AllRights,
     RightsInheriting = AllRights\<rparr>"

definition file_stat :: FDStat where
  "file_stat = \<lparr>FileType = RegularFileType, Flags = 0, RightsBase = AllRights,
     RightsInheriting = AllRights\<rparr>"

text \<open>One pre-opened directory \<open>/tmp\<close> (host handle 5) at slot 0, with all rights.\<close>

definition tmp_Provider :: Provider where
  "tmp_Provider = Preopen empty_Provider 5 ''/tmp'' dir_stat"

text \<open>The same, with the files \<open>/tmp/a\<close> (host handle 6) and \<open>/tmp/b\<close> (7) open at slots 1 and 2.\<close>

definition two_files_Provider :: Provider where
  "two_files_Provider =
     \<lparr>store = (\<lambda>r. no_fdinfo)
        (0 := \<lparr>path = ''/tmp'', fd = 5, stat = dir_stat, dirEntries = []\<rparr>,
         1 := \<lparr>path = ''/tmp/a'', fd = 6, stat = file_stat, dirEntries = []\<rparr>,
         2 := \<lparr>path = ''/tmp/b'', fd = 7, stat = file_stat, dirEntries = []\<rparr>),
      next_ref = 3, fds = [Some 0, Some 1, Some 2], preopens = [Some ()], pollfds = []\<rparr>"

text \<open>A host on which every call succeeds.\<close>

definition quiet_host :: host where
  "quiet_host = \<lparr>sys_close = (\<lambda>hfd. None), sys_fcntl_getfl = (\<lambda>hfd. Inr 0),
     sys_fcntl_setfl = (\<lambda>hfd fl. None), sys_openat = (\<lambda>dfd pth oflags mode. Inr 6),
     sys_lseek = (\<lambda>hfd off whence. (0, None)), os_ReadDir = (\<lambda>pth. Inr []),
     os_Stat = (\<lambda>pth. Inr \<lparr>Mode = 0, Ino = 0\<rparr>),
     sys_poll = (\<lambda>pfds ms. Inr (0, \<lambda>i. 0)), ctx_sleep = (\<lambda>d. None)\<rparr>"

text \<open>The pre-opened directory \<open>/tmp\<close> whose inheriting rights are \<open>FDReadRight\<close> alone.\<close>

definition inherit_read_Provider :: Provider where
  "inherit_read_Provider = Preopen empty_Provider 5 ''/tmp''
     \<lparr>FileType = DirectoryType, Flags = 0, RightsBase = AllRights,
      RightsInheriting = FDReadRight\<rparr>"

text \<open>
  A read subscription on a descriptor, a clock subscription, and a subscription whose event
  type is none of the three named ones.
\<close>

definition read_sub :: "int \<Rightarrow> Subscription" where
  "read_sub gfd =
     \<lparr>UserData = 7, EventType = FDReadEvent,
      GetClock = \<lparr>ID = 0, Timeout = 0, Precision = 0, ClockFlags = 0\<rparr>,
      GetFDReadWrite = \<lparr>FD = gfd\<rparr>\<rparr>"

definition clock_sub :: "ClockID \<Rightarrow> 64 word \<Rightarrow> SubscriptionClockFlags \<Rightarrow> Subscription" where
  "clock_sub cid timeout flags =
     \<lparr>UserData = 8, EventType = ClockEvent,
      GetClock = \<lparr>ID = cid, Timeout = timeout, Precision = 0, ClockFlags = flags\<rparr>,
      GetFDReadWrite = \<lparr>FD = 0\<rparr>\<rparr>"

definition other_sub :: Subscription where
  "other_sub =
     \<lparr>UserData = 9, EventType = 7,
      GetClock = \<lparr>ID = 0, Timeout = 0, Precision = 0, ClockFlags = 0\<rparr>,
      GetFDReadWrite = \<lparr>FD = 0\<rparr>\<rparr>"

subsection \<open>Notions for PollOneOff\<close>

text \<open>
  A read or write subscription; an event type the source names; a subscription's descriptor
  passes the lookup that \<open>PollOneOff\<close> makes; every read or write subscription of a list
  does; a clock subscription the provider does not support; the number of poll slots, among
  the first \<open>k\<close>, that the host reports ready; the subscriptions the first loop makes a
  poll slot for, and those the second loop reads one for.
\<close>

definition is_fd_subscription :: "Subscription \<Rightarrow> bool" where
  "is_fd_subscription s = (EventType s = FDReadEvent \<or> EventType s = FDWriteEvent)"

definition known_event_type :: "Subscription \<Rightarrow> bool" where
  "known_event_type s = (EventType s = ClockEvent \<or> is_fd_subscription s)"

definition lookup_passes :: "Provider \<Rightarrow> Subscription \<Rightarrow> bool" where
  "lookup_passes p s =
     (case lookupFD p (FD (GetFDReadWrite s)) PollFDReadWriteRight of
        Inl errno \<Rightarrow> False | Inr f \<Rightarrow> True)"

definition fd_lookups_pass :: "Provider \<Rightarrow> Subscription list \<Rightarrow> bool" where
  "fd_lookups_pass p ss =
     list_all (\<lambda>s. if is_fd_subscription s then lookup_passes p s else True) ss"

definition unsupported_clock :: "Subscription \<Rightarrow> bool" where
  "unsupported_clock s =
     (EventType s = ClockEvent
      \<and> (ID (GetClock s) \<noteq> Monotonic
         \<or> SubscriptionClockFlags_Has (ClockFlags (GetClock s)) Abstime))"

definition ready_count :: "(nat \<Rightarrow> 16 word) \<Rightarrow> nat \<Rightarrow> nat" where
  "ready_count revents k = length (filter (\<lambda>i. revents i \<noteq> 0) [0..<k])"

definition fd_subscriptions :: "Subscription list \<Rightarrow> Subscription list" where
  "fd_subscriptions ss = filter is_fd_subscription ss"

definition slot_subscriptions :: "Subscription list \<Rightarrow> Subscription list" where
  "slot_subscriptions ss = filter (\<lambda>s. EventType s \<noteq> ClockEvent) ss"

text \<open>A host whose \<open>poll\<close> reports every slot readable, and the event of \<open>read_sub\<close>.\<close>

definition ready_host :: host where
  "ready_host = quiet_host\<lparr>sys_poll := (\<lambda>pfds ms. Inr (1, \<lambda>i. POLLIN))\<rparr>"

definition read_event :: Event where
  "read_event = \<lparr>ev_UserData = 7, ev_Errno = ESUCCESS, ev_EventType = FDReadEvent,
     FDReadWrite = \<lparr>NBytes = 1, EventFlags = 0\<rparr>\<rparr>"

subsection \<open>Notions for FDReadDir\<close>

text \<open>
  The bytes counted for one entry and for the entries \<open>a..<b\<close> of a listing; an entry
  whose \<open>Info()\<close> succeeds, its result, and the error number returned when it fails; the
  output entry for index \<open>i\<close> of a listing; the host listing succeeds for the entry's
  path; the synthetic entries of a path: \<open>.\<close> if the path can be stat'ed, then \<open>..\<close> if
  its parent can.
\<close>

definition entry_bytes :: "osDirEntry \<Rightarrow> int" where
  "entry_bytes e = sizeof_DirEntry + int (length (de_Name e))"

definition listing_bytes :: "osDirEntry list \<Rightarrow> nat \<Rightarrow> nat \<Rightarrow> int" where
  "listing_bytes entries a b = sum_list (map (\<lambda>i. entry_bytes (entries ! i)) [a..<b])"

definition info_ok :: "osDirEntry \<Rightarrow> bool" where
  "info_ok e = (case de_Info e of Inl err \<Rightarrow> False | Inr s \<Rightarrow> True)"

definition the_Info :: "osDirEntry \<Rightarrow> Stat_t" where
  "the_Info e = (case de_Info e of Inl err \<Rightarrow> \<lparr>Mode = 0, Ino = 0\<rparr> | Inr s \<Rightarrow> s)"

definition info_errno :: "osDirEntry \<Rightarrow> Errno" where
  "info_errno e = (case de_Info e of Inl err \<Rightarrow> makeErrno (Some err) | Inr s \<Rightarrow> ESUCCESS)"

definition dot_entries :: "host \<Rightarrow> string \<Rightarrow> osDirEntry list" where
  "dot_entries h pth =
     (case os_Stat h pth of Inl err \<Rightarrow> [] | Inr info \<Rightarrow> [statDirEntry ''.'' info])
     @ (case os_Stat h (Join pth ''..'') of
          Inl err \<Rightarrow> [] | Inr info \<Rightarrow> [statDirEntry ''..'' info])"

definition output_entry :: "(32 word \<Rightarrow> FileType) \<Rightarrow> osDirEntry list \<Rightarrow> nat \<Rightarrow> DirEntryName" where
  "output_entry makeFileType entries i =
     make_DirEntryName makeFileType i (de_Name (entries ! i)) (the_Info (entries ! i))"

definition listing_refreshed :: "host \<Rightarrow> Provider \<Rightarrow> nat \<Rightarrow> bool" where
  "listing_refreshed h p f =
     (case os_ReadDir h (path (store p f)) of Inl err \<Rightarrow> False | Inr entries \<Rightarrow> True)"

text \<open>
  Hosts for \<open>FDReadDir\<close>: one that lists the files \<open>a\<close> and \<open>bb\<close>, one whose listing
  fails, one on which only \<open>/tmp\<close> itself can be stat'ed, and one that lists \<open>a\<close> and
  an entry \<open>b\<close> whose \<open>Info()\<close> fails; a stand-in for \<open>makeFileType\<close>; the output
  entries of the two files and of the synthetic entries; the state after a listing.
\<close>

definition file_a :: osDirEntry where
  "file_a = \<lparr>de_Name = ''a'', de_Info = Inr \<lparr>Mode = 0, Ino = 11\<rparr>\<rparr>"

definition file_bb :: osDirEntry where
  "file_bb = \<lparr>de_Name = ''bb'', de_Info = Inr \<lparr>Mode = 0, Ino = 12\<rparr>\<rparr>"

definition listing_host :: host where
  "listing_host = quiet_host\<lparr>os_ReadDir := (\<lambda>pth. Inr [file_a, file_bb])\<rparr>"

definition enoent_host :: host where
  "enoent_host = quiet_host\<lparr>os_ReadDir := (\<lambda>pth. Inl HENOENT)\<rparr>"

definition noparent_host :: host where
  "noparent_host = listing_host\<lparr>os_Stat :=
     (\<lambda>pth. if pth = ''/tmp'' then Inr \<lparr>Mode = 0, Ino = 1\<rparr> else Inl HEACCES)\<rparr>"

definition gone_b :: osDirEntry where
  "gone_b = \<lparr>de_Name = ''b'', de_Info = Inl HENOENT\<rparr>"

definition stale_host :: host where
  "stale_host = quiet_host\<lparr>os_ReadDir := (\<lambda>pth. Inr [file_a, gone_b])\<rparr>"

definition regular :: "32 word \<Rightarrow> FileType" where
  "regular m = RegularFileType"

definition out_a :: DirEntryName where
  "out_a = \<lparr>Entry = \<lparr>Next = 1, INode = 11, NameLength = 1, Type = RegularFileType\<rparr>,
            Name = ''a''\<rparr>"

definition out_bb :: DirEntryName where
  "out_bb = \<lparr>Entry = \<lparr>Next = 2, INode = 12, NameLength = 2, Type = RegularFileType\<rparr>,
             Name = ''bb''\<rparr>"

definition out_dot :: DirEntryName where
  "out_dot = \<lparr>Entry = \<lparr>Next = 3, INode = 0, NameLength = 1, Type = RegularFileType\<rparr>,
              Name = ''.''\<rparr>"

definition out_dotdot :: DirEntryName where
  "out_dotdot = \<lparr>Entry = \<lparr>Next = 4, INode = 0, NameLength = 2, Type = RegularFileType\<rparr>,
                 Name = ''..''\<rparr>"

definition listed_Provider :: Provider where
  "listed_Provider =
     set_dirEntries tmp_Provider 0
       [file_a, file_bb, statDirEntry ''.'' \<lparr>Mode = 0, Ino = 0\<rparr>,
        statDirEntry ''..'' \<lparr>Mode = 0, Ino = 0\<rparr>]"

section \<open>Verified properties\<close>

subsection \<open>Auxiliary facts\<close>

lemma rights_subset_bits: "rights_subset a b \<longleftrightarrow> (\<forall>n. bit a n \<longrightarrow> bit b n)"
  unfolding rights_subset_def
  using bit_imp_le_length [of a] by (fastforce simp: bit_eq_iff bit_and_iff bit_not_iff)

lemma rights_subset_and: "rights_subset a b \<Longrightarrow> b AND a = a"
  unfolding rights_subset_bits
  by (auto simp: bit_eq_iff bit_and_iff)

lemma tmp_Provider_eval:
  "fds tmp_Provider = [Some 0]" "preopens tmp_Provider = [Some ()]"
  "store tmp_Provider 0 = \<lparr>path = ''/tmp'', fd = 5, stat = dir_stat, dirEntries = []\<rparr>"
  "next_ref tmp_Provider = 1"
  by (simp_all add: tmp_Provider_def Preopen_def empty_Provider_def new_fdinfo_def
      Table_Insert_def Table_Assign_def dir_stat_def AllRights_def)

lemma Clean_dotdot: "Clean ''..'' = ''..''"
  by code_simp

lemma inherit_read_Provider_eval:
  "fds inherit_read_Provider = [Some 0]"
  "stat (store inherit_read_Provider 0)
     = \<lparr>FileType = DirectoryType, Flags = 0, RightsBase = AllRights,
        RightsInheriting = FDReadRight\<rparr>"
  by (simp_all add: inherit_read_Provider_def Preopen_def empty_Provider_def new_fdinfo_def
      Table_Insert_def Table_Assign_def AllRights_def FDReadRight_def)

lemma Clean_a: "Clean ''a'' = ''a''"
  by code_simp

lemma Clean_sub: "Clean ''sub'' = ''sub''"
  by code_simp

lemmas flag_defs = OpenFlags_Has_def OpenDirectory_def OpenCreate_def OpenTruncate_def
  OpenExclusive_def FDFlags_Has_def Append_def DSync_def Sync_def NonBlock_def RSync_def
  LookupFlags_Has_def SymlinkFollow_def

lemmas oflag_defs = O_CLOEXEC_def O_DIRECTORY_def O_NOFOLLOW_def O_RDONLY_def O_WRONLY_def
  O_RDWR_def O_CREAT_def O_EXCL_def O_TRUNC_def O_APPEND_def O_NONBLOCK_def O_DSYNC_def O_SYNC_def

lemma makeErrno_Some: "makeErrno (Some err) \<noteq> ESUCCESS"
  by (cases err) (simp_all add: makeErrno_def)

text \<open>The descriptor table.\<close>

lemma Table_Lookup_Delete: "Table_Lookup (Table_Delete t k) k = None"
  by (simp add: Table_Lookup_def Table_Delete_def)

lemma first_free_le: "first_free t \<le> length t"
  by (induction t rule: first_free.induct) auto

lemma first_free_None: "first_free t < length t \<Longrightarrow> t ! first_free t = None"
  by (induction t rule: first_free.induct) auto

lemma Table_Insert_fresh:
  assumes "Table_Insert t v = (t', k)"
  shows "Table_Lookup t' k = Some v" and "Table_Lookup t k = None" and "0 \<le> k"
  using assms first_free_le [of t] first_free_None [of t]
  by (auto simp: Table_Insert_def Table_Lookup_def Let_def nth_append split: if_splits)

lemma lookupFD_closed:
  "Table_Lookup (fds p) gfd = None \<Longrightarrow> lookupFD p gfd rights = Inl EBADF"
  by (simp add: lookupFD_def)

text \<open>\<open>PathOpen\<close> once every check has passed: the host call and the new entry.\<close>

lemma PathOpen_passed:
  assumes dir: "lookupFD p gfd PathOpenRight = Inr d"
    and g1: "\<not> HasPrefix (Clean pth) ''/''" "\<not> HasPrefix (Clean pth) ''../''"
    and g2: "(rightsBase AND AllRights) AND NOT (RightsInheriting (stat (store p d))) = 0"
    and g3: "(rightsInheriting AND AllRights) AND NOT (RightsInheriting (stat (store p d))) = 0"
    and g4: "\<not> (OpenFlags_Has openFlags OpenCreate
               \<and> \<not> Has (RightsBase (stat (store p d))) PathCreateFileRight)"
    and g5: "\<not> (OpenFlags_Has openFlags OpenTruncate
               \<and> \<not> Has (RightsBase (stat (store p d))) PathFileStatSetSizeRight)"
    and rb: "rb = (if OpenFlags_Has openFlags OpenDirectory
                   then ((rightsBase AND AllRights) AND RightsInheriting (stat (store p d)))
                          AND NOT FDSeekRight
                   else (rightsBase AND AllRights) AND RightsInheriting (stat (store p d)))"
    and ri: "ri = (rightsInheriting AND AllRights) AND RightsInheriting (stat (store p d))"
    and fl: "oflags = openat_flags lookupFlags openFlags rb fdFlags"
    and ft: "ft = (if oflags AND O_DIRECTORY \<noteq> 0 then DirectoryType else RegularFileType)"
    and md: "mode = (if oflags AND O_DIRECTORY \<noteq> 0 then 0 else 420)"
  shows "PathOpen h p gfd lookupFlags pth openFlags rightsBase rightsInheriting fdFlags =
           (case sys_openat h (fd (store p d)) pth oflags mode of
              Inl err \<Rightarrow> ((- 1, makeErrno (Some err)), p,
                           [SysOpenat (fd (store p d)) pth oflags mode])
            | Inr hostfd \<Rightarrow>
                ((snd (Table_Insert (fds p) (next_ref p)), ESUCCESS),
                 p\<lparr>store := (store p)(next_ref p :=
                       \<lparr>path = Join (path (store p d)) pth, fd = hostfd,
                        stat = \<lparr>FileType = ft, Flags = fdFlags, RightsBase = rb,
                                RightsInheriting = ri\<rparr>,
                        dirEntries = []\<rparr>),
                    next_ref := Suc (next_ref p),
                    fds := fst (Table_Insert (fds p) (next_ref p))\<rparr>,
                 [SysOpenat (fd (store p d)) pth oflags mode]))"
  unfolding PathOpen_def dir sum.case Let_def
  using g1 g2 g3 g4 g5
  by (simp add: rb ri fl ft md new_fdinfo_def split_beta split: sum.splits)

lemma open_a:
  "PathOpen quiet_host tmp_Provider 0 0 ''a'' 0 FDReadRight 0 0
     = ((1, ESUCCESS),
        tmp_Provider\<lparr>store := (store tmp_Provider)(1 :=
             \<lparr>path = Join ''/tmp'' ''a'', fd = 6,
              stat = \<lparr>FileType = RegularFileType, Flags = 0, RightsBase = FDReadRight,
                      RightsInheriting = 0\<rparr>, dirEntries = []\<rparr>),
           next_ref := 2, fds := [Some 0, Some 1]\<rparr>,
        [SysOpenat 5 ''a'' (O_CLOEXEC OR O_NOFOLLOW) 420])"
  by (simp add: PathOpen_def lookupFD_def Table_Lookup_def tmp_Provider_eval dir_stat_def Has_def
      HasAny_def ReadRights_def WriteRights_def FDReadDirRight_def FDWriteRight_def
      FDAllocateRight_def PathFileStatSetSizeRight_def FDDataSyncRight_def
      AllRights_def PathOpenRight_def FDReadRight_def Clean_a HasPrefix_def flag_defs
      openat_flags_def oflag_defs quiet_host_def new_fdinfo_def Table_Insert_def Let_def)

text \<open>The two loops of \<open>PollOneOff\<close>.\<close>

lemma EventType_distinct:
  "ClockEvent \<noteq> FDReadEvent" "ClockEvent \<noteq> FDWriteEvent" "FDReadEvent \<noteq> FDWriteEvent"
  "FDReadEvent \<noteq> ClockEvent" "FDWriteEvent \<noteq> ClockEvent" "FDWriteEvent \<noteq> FDReadEvent"
  by (simp_all add: ClockEvent_def FDReadEvent_def FDWriteEvent_def)

lemma is_fd_not_clock: "is_fd_subscription s \<Longrightarrow> EventType s \<noteq> ClockEvent"
  by (auto simp: is_fd_subscription_def EventType_distinct)

lemma poll_subscribe_fd:
  assumes "is_fd_subscription s"
  shows "poll_subscribe p (s # ss) timeout pfds =
           (case lookupFD p (FD (GetFDReadWrite s)) PollFDReadWriteRight of
              Inl errno \<Rightarrow> (Inl errno, pfds)
            | Inr f \<Rightarrow>
                poll_subscribe p ss timeout
                  (pfds @ [\<lparr>Fd = word_of_int (fd (store p f)),
                           Events = (if EventType s = FDWriteEvent then POLLOUT else POLLIN),
                           Revents = 0\<rparr>]))"
  using assms by (auto simp: is_fd_subscription_def Let_def split: sum.splits)

lemma poll_subscribe_other:
  assumes "\<not> is_fd_subscription s" and "EventType s \<noteq> ClockEvent"
  shows "poll_subscribe p (s # ss) timeout pfds = poll_subscribe p ss timeout pfds"
  using assms by (simp add: is_fd_subscription_def)

lemma poll_subscribe_clock:
  assumes "EventType s = ClockEvent"
  shows "poll_subscribe p (s # ss) timeout pfds =
           (if unsupported_clock s then (Inl ENOSYS, pfds)
            else if timeout < 0 then poll_subscribe p ss (sint (Timeout (GetClock s))) pfds
            else if 0 \<le> timeout \<and> sint (Timeout (GetClock s)) < timeout
            then poll_subscribe p ss (sint (Timeout (GetClock s))) pfds
            else poll_subscribe p ss timeout pfds)"
  using assms by (simp add: unsupported_clock_def EventType_distinct Let_def)

lemma poll_subscribe_unsupported:
  assumes "unsupported_clock c" and "fd_lookups_pass p pre"
  shows "fst (poll_subscribe p (pre @ c # post) timeout pfds) = Inl ENOSYS"
  using assms(2)
proof (induction pre arbitrary: timeout pfds)
  case Nil
  have "EventType c = ClockEvent"
    using assms(1) by (simp add: unsupported_clock_def)
  then show ?case
    using assms(1) by (simp add: poll_subscribe_clock del: poll_subscribe.simps)
next
  case (Cons s pre)
  then have rest: "fd_lookups_pass p pre"
    and here: "is_fd_subscription s \<Longrightarrow> lookup_passes p s"
    by (simp_all add: fd_lookups_pass_def)
  consider (fd) "is_fd_subscription s"
    | (clock) "EventType s = ClockEvent"
    | (other) "\<not> is_fd_subscription s" "EventType s \<noteq> ClockEvent"
    by blast
  then show ?case
  proof cases
    case fd
    then obtain f where "lookupFD p (FD (GetFDReadWrite s)) PollFDReadWriteRight = Inr f"
      using here by (auto simp: lookup_passes_def split: sum.splits)
    then show ?thesis
      using Cons.IH [OF rest] by (simp add: poll_subscribe_fd [OF fd] del: poll_subscribe.simps)
  next
    case clock
    then show ?thesis
      using Cons.IH [OF rest] by (simp add: poll_subscribe_clock del: poll_subscribe.simps)
  next
    case other
    then show ?thesis
      using Cons.IH [OF rest] by (simp add: poll_subscribe_other del: poll_subscribe.simps)
  qed
qed

lemma poll_subscribe_length:
  "poll_subscribe p ss timeout pfds0 = (Inr t, pfds)
   \<Longrightarrow> length pfds = length pfds0 + length (fd_subscriptions ss)"
proof (induction ss arbitrary: timeout pfds0)
  case Nil
  then show ?case by (simp add: fd_subscriptions_def)
next
  case (Cons s ss)
  consider (fd) "is_fd_subscription s"
    | (clock) "EventType s = ClockEvent"
    | (other) "\<not> is_fd_subscription s" "EventType s \<noteq> ClockEvent"
    by blast
  then show ?case
  proof cases
    case fd
    then show ?thesis
      using Cons.prems Cons.IH
      by (auto simp: poll_subscribe_fd [OF fd] fd_subscriptions_def
          simp del: poll_subscribe.simps split: sum.splits)
  next
    case clock
    then have "\<not> is_fd_subscription s"
      using is_fd_not_clock by blast
    then show ?thesis
      using Cons.prems Cons.IH clock
      by (auto simp: poll_subscribe_clock fd_subscriptions_def
          simp del: poll_subscribe.simps split: if_splits)
  next
    case other
    then show ?thesis
      using Cons.prems Cons.IH
      by (auto simp: poll_subscribe_other fd_subscriptions_def simp del: poll_subscribe.simps)
  qed
qed

lemma slots_known:
  "list_all known_event_type ss \<Longrightarrow> slot_subscriptions ss = fd_subscriptions ss"
  unfolding slot_subscriptions_def fd_subscriptions_def
  by (rule filter_cong) (auto simp: list_all_iff known_event_type_def dest: is_fd_not_clock)

lemma slots_ge: "length (fd_subscriptions ss) \<le> length (slot_subscriptions ss)"
  by (induction ss) (auto simp: fd_subscriptions_def slot_subscriptions_def dest: is_fd_not_clock)

lemma slots_unknown:
  "\<not> list_all known_event_type ss
   \<Longrightarrow> length (fd_subscriptions ss) < length (slot_subscriptions ss)"
proof (induction ss)
  case Nil
  then show ?case by simp
next
  case (Cons s ss)
  show ?case
  proof (cases "known_event_type s")
    case True
    then have "\<not> list_all known_event_type ss"
      using Cons.prems by simp
    then have "length (fd_subscriptions ss) < length (slot_subscriptions ss)"
      by (rule Cons.IH)
    then show ?thesis
      by (auto simp: fd_subscriptions_def slot_subscriptions_def dest: is_fd_not_clock)
  next
    case False
    then show ?thesis
      using slots_ge [of ss]
      by (auto simp: fd_subscriptions_def slot_subscriptions_def known_event_type_def)
  qed
qed

lemma poll_events_None:
  "j \<le> length polled \<Longrightarrow> length polled < j + length (slot_subscriptions ss)
   \<Longrightarrow> poll_events polled ss j events = None"
proof (induction ss arbitrary: j events)
  case Nil
  then show ?case by (simp add: slot_subscriptions_def)
next
  case (Cons s ss)
  show ?case
  proof (cases "EventType s = ClockEvent")
    case True
    then show ?thesis
      using Cons.prems Cons.IH [of j events] by (simp add: slot_subscriptions_def)
  next
    case False
    then have more: "length polled < Suc j + length (slot_subscriptions ss)"
      using Cons.prems by (simp add: slot_subscriptions_def)
    show ?thesis
    proof (cases "length polled \<le> j")
      case True
      then show ?thesis
        using False by simp
    next
      case inside: False
      then have "Suc j \<le> length polled"
        by simp
      then have rest: "poll_events polled ss (Suc j) evs = None" for evs
        using more by (rule Cons.IH)
      show ?thesis
        using False inside by (simp add: rest)
    qed
  qed
qed

lemma poll_events_count:
  "j + length (slot_subscriptions ss) \<le> length polled
   \<Longrightarrow> \<exists>new. poll_events polled ss j events = Some (events @ new)
          \<and> length new = length (filter (\<lambda>i. Revents (polled ! i) \<noteq> 0)
                                   [j..<j + length (slot_subscriptions ss)])"
proof (induction ss arbitrary: j events)
  case Nil
  then show ?case by (simp add: slot_subscriptions_def)
next
  case (Cons s ss)
  show ?case
  proof (cases "EventType s = ClockEvent")
    case True
    then show ?thesis
      using Cons.prems Cons.IH [of j events] by (simp add: slot_subscriptions_def)
  next
    case False
    then have len: "length (slot_subscriptions (s # ss)) = Suc (length (slot_subscriptions ss))"
      by (simp add: slot_subscriptions_def)
    have j: "j < length polled"
      and rest: "Suc j + length (slot_subscriptions ss) \<le> length polled"
      using Cons.prems len by simp_all
    have upt: "[j..<j + length (slot_subscriptions (s # ss))]
        = j # [Suc j..<Suc j + length (slot_subscriptions ss)]"
      unfolding len
      using upt_conv_Cons [of j "j + Suc (length (slot_subscriptions ss))"]
      by (simp del: upt_Suc)
    show ?thesis
    proof (cases "Revents (polled ! j) = 0")
      case True
      then show ?thesis
        using False j Cons.IH [OF rest, of events] unfolding upt by simp
    next
      case nz: False
      obtain new where
        "poll_events polled ss (Suc j) (events @ [make_Event s (polled ! j)])
           = Some ((events @ [make_Event s (polled ! j)]) @ new)"
        and "length new = length (filter (\<lambda>i. Revents (polled ! i) \<noteq> 0)
                                   [Suc j..<Suc j + length (slot_subscriptions ss)])"
        using Cons.IH [OF rest, of "events @ [make_Event s (polled ! j)]"] by blast
      then show ?thesis
        using False j nz unfolding upt
        by (intro exI [of _ "make_Event s (polled ! j) # new"]) simp
    qed
  qed
qed

lemma set_revents_length: "length (set_revents revents pfds) = length pfds"
  by (simp add: set_revents_def)

lemma set_revents_nth:
  "i < length pfds \<Longrightarrow> Revents (set_revents revents pfds ! i) = revents i"
  by (simp add: set_revents_def nth_enumerate_eq)

lemma ready_count_polled:
  "length (filter (\<lambda>i. Revents (set_revents revents pfds ! i) \<noteq> 0) [0..<length pfds])
     = ready_count revents (length pfds)"
  unfolding ready_count_def
  by (rule arg_cong [where f = length], rule filter_cong) (simp_all add: set_revents_nth)

lemma lookup_poll_tmp:
  "lookupFD tmp_Provider 0 PollFDReadWriteRight = Inr 0"
  "lookupFD tmp_Provider 9 PollFDReadWriteRight = Inl EBADF"
  by (simp_all add: lookupFD_def Table_Lookup_def tmp_Provider_eval dir_stat_def Has_def
      AllRights_def PollFDReadWriteRight_def)

lemma subscribe_read_0:
  "poll_subscribe tmp_Provider [read_sub 0] (- 1) []
     = (Inr (- 1), [\<lparr>Fd = 5, Events = POLLIN, Revents = 0\<rparr>])"
  by (simp add: read_sub_def lookup_poll_tmp tmp_Provider_eval EventType_distinct)

lemma subscribe_read_other:
  "poll_subscribe tmp_Provider [read_sub 0, other_sub] (- 1) []
     = (Inr (- 1), [\<lparr>Fd = 5, Events = POLLIN, Revents = 0\<rparr>])"
  by (simp add: read_sub_def other_sub_def lookup_poll_tmp tmp_Provider_eval EventType_distinct
      ClockEvent_def FDReadEvent_def FDWriteEvent_def)

lemma sub_types:
  "is_fd_subscription (read_sub gfd)" "known_event_type (read_sub gfd)"
  "\<not> known_event_type other_sub" "EventType other_sub \<noteq> ClockEvent"
  by (simp_all add: is_fd_subscription_def known_event_type_def read_sub_def other_sub_def
      ClockEvent_def FDReadEvent_def FDWriteEvent_def)

text \<open>The loop of \<open>FDReadDir\<close>, by computation induction.\<close>

lemma listing_bytes_same: "listing_bytes entries a a = 0"
  by (simp add: listing_bytes_def)

lemma listing_bytes_step:
  "a < b \<Longrightarrow> listing_bytes entries a b = entry_bytes (entries ! a) + listing_bytes entries (Suc a) b"
  by (simp add: listing_bytes_def upt_conv_Cons)

lemma readdir_loop_spec:
  "\<exists>k\<ge>pos.
     fst (readdir_loop makeFileType entries bufferSizeBytes pos n buffer)
       = buffer @ map (output_entry makeFileType entries) [pos..<k]
     \<and> (\<forall>j. pos \<le> j \<and> j < k \<longrightarrow>
            j < length entries \<and> info_ok (entries ! j)
          \<and> n + listing_bytes entries pos j < bufferSizeBytes)
     \<and> snd (readdir_loop makeFileType entries bufferSizeBytes pos n buffer)
         = (if k < length entries \<and> n + listing_bytes entries pos k < bufferSizeBytes
            then info_errno (entries ! k) else ESUCCESS)
     \<and> (k < length entries \<and> n + listing_bytes entries pos k < bufferSizeBytes \<longrightarrow>
            \<not> info_ok (entries ! k))"
proof (induction makeFileType entries bufferSizeBytes pos n buffer rule: readdir_loop.induct)
  case (1 makeFileType entries bufferSizeBytes pos n buffer)
  let ?loop = "readdir_loop makeFileType entries bufferSizeBytes pos n buffer"
  show ?case
  proof (cases "pos < length entries \<and> n < bufferSizeBytes")
    case False
    have "?loop = (buffer, ESUCCESS)"
      by (subst readdir_loop.simps) (use False in auto)
    then show ?thesis
      using False by (intro exI [of _ pos]) (auto simp: listing_bytes_same)
  next
    case True
    then have pos: "pos < length entries" and n: "n < bufferSizeBytes"
      by simp_all
    show ?thesis
    proof (cases "de_Info (entries ! pos)")
      case (Inl err)
      have "?loop = (buffer, makeErrno (Some err))"
        by (subst readdir_loop.simps) (simp add: True Inl Let_def)
      then show ?thesis
        using True Inl
        by (intro exI [of _ pos]) (auto simp: listing_bytes_same info_errno_def info_ok_def)
    next
      case (Inr s)
      have ok: "info_ok (entries ! pos)"
        by (simp add: info_ok_def Inr)
      have out: "make_DirEntryName makeFileType pos (de_Name (entries ! pos)) s
          = output_entry makeFileType entries pos"
        by (simp add: output_entry_def the_Info_def Inr)
      let ?n = "n + (sizeof_DirEntry + int (length (de_Name (entries ! pos))))"
      let ?b = "buffer @ [output_entry makeFileType entries pos]"
      let ?next = "readdir_loop makeFileType entries bufferSizeBytes (pos + 1) ?n ?b"
      have unfold: "?loop = ?next"
        by (subst readdir_loop.simps) (simp add: True Inr out Let_def)
      obtain k where k: "pos + 1 \<le> k"
        and res: "fst ?next = ?b @ map (output_entry makeFileType entries) [pos + 1..<k]"
        and below: "\<forall>j. pos + 1 \<le> j \<and> j < k \<longrightarrow>
              j < length entries \<and> info_ok (entries ! j)
            \<and> ?n + listing_bytes entries (pos + 1) j < bufferSizeBytes"
        and err: "snd ?next
            = (if k < length entries \<and> ?n + listing_bytes entries (pos + 1) k < bufferSizeBytes
               then info_errno (entries ! k) else ESUCCESS)"
        and stop: "k < length entries \<and> ?n + listing_bytes entries (pos + 1) k < bufferSizeBytes
            \<longrightarrow> \<not> info_ok (entries ! k)"
        using "1.IH" [OF True refl refl Inr, unfolded out] by blast
      have upt: "[pos..<k] = pos # [pos + 1..<k]"
        using k by (simp add: upt_conv_Cons)
      have bytes: "pos < j \<Longrightarrow>
          n + listing_bytes entries pos j = ?n + listing_bytes entries (pos + 1) j" for j
        by (simp add: listing_bytes_step entry_bytes_def)
      have bk: "n + listing_bytes entries pos k = ?n + listing_bytes entries (pos + 1) k"
        using k by (intro bytes) simp
      have c1: "fst ?loop = buffer @ map (output_entry makeFileType entries) [pos..<k]"
        unfolding unfold res upt by simp
      have c2: "\<forall>j. pos \<le> j \<and> j < k \<longrightarrow>
              j < length entries \<and> info_ok (entries ! j)
            \<and> n + listing_bytes entries pos j < bufferSizeBytes"
      proof (intro allI impI)
        fix j assume j: "pos \<le> j \<and> j < k"
        show "j < length entries \<and> info_ok (entries ! j)
            \<and> n + listing_bytes entries pos j < bufferSizeBytes"
        proof (cases "j = pos")
          case True
          then show ?thesis using pos n ok by (simp add: listing_bytes_same)
        next
          case False
          then have j1: "pos + 1 \<le> j" and j2: "pos < j" using j by simp_all
          from below j1 j
          have "j < length entries \<and> info_ok (entries ! j)
              \<and> ?n + listing_bytes entries (pos + 1) j < bufferSizeBytes"
            by blast
          then show ?thesis using bytes [OF j2] by simp
        qed
      qed
      have c3: "snd ?loop
          = (if k < length entries \<and> n + listing_bytes entries pos k < bufferSizeBytes
             then info_errno (entries ! k) else ESUCCESS)"
        unfolding unfold err bk by simp
      have c4: "k < length entries \<and> n + listing_bytes entries pos k < bufferSizeBytes
            \<longrightarrow> \<not> info_ok (entries ! k)"
        using stop unfolding bk by simp
      have "pos \<le> k"
        using k by simp
      then show ?thesis
        using c1 c2 c3 c4 by blast
    qed
  qed
qed

lemma FDReadDir_resume:
  assumes "lookupFD p gfd FDReadDirRight = Inr f" and "cookie \<noteq> 0"
  shows "FDReadDir h makeFileType p gfd buffer bufferSizeBytes cookie =
           (if MaxInt < cookie then ((buffer, EINVAL), p, [])
            else (readdir_loop makeFileType (dirEntries (store p f)) bufferSizeBytes
                    (unat cookie) 0 buffer, p, []))"
  using assms by (simp add: FDReadDir_def)

lemma FDReadDir_restart:
  assumes "lookupFD p gfd FDReadDirRight = Inr f"
    and "os_ReadDir h (path (store p f)) = Inr es"
  shows "FDReadDir h makeFileType p gfd buffer bufferSizeBytes 0 =
           (readdir_loop makeFileType (with_dot_entries h (path (store p f)) es)
              bufferSizeBytes 0 0 buffer,
            set_dirEntries p f (with_dot_entries h (path (store p f)) es),
            [OsReadDir (path (store p f)), OsStat (path (store p f)),
             OsStat (Join (path (store p f)) ''..'')])"
proof -
  have "\<not> MaxInt < (0 :: 64 word)"
    by simp
  moreover have "dirEntries (store (set_dirEntries p f (with_dot_entries h (path (store p f)) es)) f)
      = with_dot_entries h (path (store p f)) es"
    by (simp add: set_dirEntries_def)
  ultimately show ?thesis
    using assms by (simp add: FDReadDir_def readdir_restart_def Let_def)
qed

lemma with_dot_entries_eq: "with_dot_entries h pth es = es @ dot_entries h pth"
  by (simp add: with_dot_entries_def dot_entries_def Let_def split: sum.splits)

lemma dot_entries_both:
  assumes "os_Stat h pth = Inr dot" and "os_Stat h (Join pth ''..'') = Inr dotdot"
  shows "dot_entries h pth = [statDirEntry ''.'' dot, statDirEntry ''..'' dotdot]"
  using assms by (simp add: dot_entries_def)

lemma FDReadDir_listing_fails:
  assumes "lookupFD p gfd FDReadDirRight = Inr f"
    and "os_ReadDir h (path (store p f)) = Inl err"
  shows "FDReadDir h makeFileType p gfd buffer bufferSizeBytes 0
           = ((buffer, makeErrno (Some err)), p, [OsReadDir (path (store p f))])"
  using assms by (simp add: FDReadDir_def readdir_restart_def Let_def)

lemma Join_tmp_dotdot: "Join ''/tmp'' ''..'' = ''/''"
  by code_simp

lemma lookup_readdir_tmp: "lookupFD tmp_Provider 0 FDReadDirRight = Inr 0"
  by (simp add: lookupFD_def Table_Lookup_def tmp_Provider_eval dir_stat_def Has_def
      AllRights_def FDReadDirRight_def)

lemma readdir_tmp_restart:
  "FDReadDir listing_host regular tmp_Provider 0 [] 30 0
     = (([out_a, out_bb], ESUCCESS),
        set_dirEntries tmp_Provider 0
          [file_a, file_bb, statDirEntry ''.'' \<lparr>Mode = 0, Ino = 0\<rparr>,
           statDirEntry ''..'' \<lparr>Mode = 0, Ino = 0\<rparr>],
        [OsReadDir ''/tmp'', OsStat ''/tmp'', OsStat ''/''])"
  by (simp add: FDReadDir_def lookup_readdir_tmp readdir_restart_def with_dot_entries_def
      tmp_Provider_eval Join_tmp_dotdot listing_host_def quiet_host_def set_dirEntries_def
      readdir_loop.simps file_a_def file_bb_def make_DirEntryName_def regular_def
      sizeof_DirEntry_def out_a_def out_bb_def MaxInt_def Let_def)

lemma lookup_readdir_listed: "lookupFD listed_Provider 0 FDReadDirRight = Inr 0"
  by (simp add: listed_Provider_def set_dirEntries_def lookupFD_def Table_Lookup_def
      tmp_Provider_eval dir_stat_def Has_def AllRights_def FDReadDirRight_def)

lemma readdir_listed_resume:
  "FDReadDir listing_host regular listed_Provider 0 [] 1000 2
     = (([out_dot, out_dotdot], ESUCCESS), listed_Provider, [])"
proof -
  have cache: "dirEntries (store listed_Provider 0)
      = [file_a, file_bb, statDirEntry ''.'' \<lparr>Mode = 0, Ino = 0\<rparr>,
         statDirEntry ''..'' \<lparr>Mode = 0, Ino = 0\<rparr>]"
    by (simp add: listed_Provider_def set_dirEntries_def)
  show ?thesis
    by (simp add: FDReadDir_def lookup_readdir_listed cache readdir_loop.simps statDirEntry_def
        make_DirEntryName_def regular_def sizeof_DirEntry_def out_dot_def out_dotdot_def
        MaxInt_def Let_def)
qed

lemma readdir_stale_limit:
  "fst (FDReadDir stale_host regular tmp_Provider 0 [] 10 0) = ([out_a], ESUCCESS)"
  by (simp add: FDReadDir_def lookup_readdir_tmp readdir_restart_def with_dot_entries_def
      tmp_Provider_eval Join_tmp_dotdot stale_host_def quiet_host_def set_dirEntries_def
      readdir_loop.simps file_a_def gone_b_def make_DirEntryName_def regular_def
      sizeof_DirEntry_def out_a_def MaxInt_def Let_def)

lemma readdir_stale_fails:
  "fst (FDReadDir stale_host regular tmp_Provider 0 [] 1000 0) = ([out_a], ENOENT)"
  by (simp add: FDReadDir_def lookup_readdir_tmp readdir_restart_def with_dot_entries_def
      tmp_Provider_eval Join_tmp_dotdot stale_host_def quiet_host_def set_dirEntries_def
      readdir_loop.simps file_a_def gone_b_def make_DirEntryName_def regular_def
      sizeof_DirEntry_def out_a_def makeErrno_def MaxInt_def Let_def)

text \<open>The cases of \<open>FDReadDir\<close>.\<close>

lemma FDReadDir_cases:
  assumes lk: "lookupFD p gfd FDReadDirRight = Inr f"
  shows "(let entries = dirEntries (store (fst (snd
                (FDReadDir h makeFileType p gfd buffer bufferSizeBytes cookie))) f);
              c = unat cookie
          in (cookie = 0 \<and> os_ReadDir h (path (store p f)) = Inr es \<longrightarrow>
                entries = es @ dot_entries h (path (store p f)))
           \<and> (cookie = 0 \<and> os_ReadDir h (path (store p f)) = Inl err \<longrightarrow>
                FDReadDir h makeFileType p gfd buffer bufferSizeBytes cookie
                  = ((buffer, makeErrno (Some err)), p, [OsReadDir (path (store p f))]))
           \<and> (cookie \<noteq> 0 \<longrightarrow> entries = dirEntries (store p f))
           \<and> (MaxInt < cookie \<longrightarrow>
                FDReadDir h makeFileType p gfd buffer bufferSizeBytes cookie
                  = ((buffer, EINVAL), p, []))
           \<and> (cookie \<le> MaxInt \<and> (cookie \<noteq> 0 \<or> listing_refreshed h p f) \<longrightarrow>
                (\<exists>k\<ge>c.
                   fst (fst (FDReadDir h makeFileType p gfd buffer bufferSizeBytes cookie))
                     = buffer @ map (output_entry makeFileType entries) [c..<k]
                 \<and> (\<forall>j. c \<le> j \<and> j < k \<longrightarrow>
                        j < length entries \<and> info_ok (entries ! j)
                      \<and> listing_bytes entries c j < bufferSizeBytes)
                 \<and> snd (fst (FDReadDir h makeFileType p gfd buffer bufferSizeBytes cookie))
                     = (if k < length entries \<and> listing_bytes entries c k < bufferSizeBytes
                        then info_errno (entries ! k) else ESUCCESS)
                 \<and> (k < length entries \<and> listing_bytes entries c k < bufferSizeBytes \<longrightarrow>
                        \<not> info_ok (entries ! k)))))"
proof (cases "cookie = 0")
  case False
  note form = FDReadDir_resume [OF lk False, of h makeFileType buffer bufferSizeBytes]
  show ?thesis
  proof (cases "MaxInt < cookie")
    case True
    then have "\<not> cookie \<le> MaxInt"
      by (simp add: not_le)
    then show ?thesis
      using False True by (simp add: form Let_def)
  next
    case small: False
    have post: "fst (snd (FDReadDir h makeFileType p gfd buffer bufferSizeBytes cookie)) = p"
      and res: "fst (FDReadDir h makeFileType p gfd buffer bufferSizeBytes cookie)
        = readdir_loop makeFileType (dirEntries (store p f)) bufferSizeBytes (unat cookie) 0 buffer"
      using small by (simp_all add: form)
    show ?thesis
      unfolding Let_def post res
      using False small
        readdir_loop_spec [of "unat cookie" makeFileType "dirEntries (store p f)"
          bufferSizeBytes 0 buffer]
      by simp
  qed
next
  case True
  have zero: "\<not> MaxInt < cookie" "unat cookie = 0"
    using True by simp_all
  show ?thesis
  proof (cases "os_ReadDir h (path (store p f))")
    case (Inl err')
    then show ?thesis
      using True zero FDReadDir_listing_fails [OF lk Inl, of makeFileType buffer bufferSizeBytes]
      by (simp add: listing_refreshed_def Let_def)
  next
    case (Inr es')
    define entries where "entries = with_dot_entries h (path (store p f)) es'"
    note form = FDReadDir_restart [OF lk Inr, of makeFileType buffer bufferSizeBytes,
        folded entries_def]
    have cache: "dirEntries (store (set_dirEntries p f entries) f) = entries"
      by (simp add: set_dirEntries_def)
    have listed: "os_ReadDir h (path (store p f)) = Inr es \<longrightarrow>
        entries = es @ dot_entries h (path (store p f))"
      using Inr by (auto simp: entries_def with_dot_entries_eq)
    show ?thesis
      unfolding True form Let_def fst_conv snd_conv cache
      using listed Inr readdir_loop_spec [of 0 makeFileType entries bufferSizeBytes 0 buffer]
      by simp
  qed
qed

text \<open>What \<open>PathOpen\<close> and \<open>FDRenumber\<close> do reject.\<close>

lemma PathOpen_rejects_prefix:
  assumes "lookupFD p gfd PathOpenRight = Inr d"
    and "HasPrefix (Clean pth) ''/'' \<or> HasPrefix (Clean pth) ''../''"
  shows "PathOpen h p gfd lookupFlags pth openFlags rightsBase rightsInheriting fdFlags
           = ((- 1, EPERM), p, [])"
  using assms by (auto simp: PathOpen_def Let_def)

lemma FDRenumber_preopen:
  assumes "isPreopen p from \<or> isPreopen p to"
  shows "FDRenumber p from to = Some (ENOTSUP, p, [])"
  using assms by (auto simp: FDRenumber_def)

lemma FDRenumber_never_ESUCCESS:
  assumes "FDRenumber p from to = Some (errno, p', calls)"
  shows "errno \<noteq> ESUCCESS"
  using assms
  by (auto simp: FDRenumber_def lookupFD_def split: if_splits option.splits sum.splits)

subsection \<open>FDStatSetRights\<close>

text \<open>
  C4, as the code has it. \<open>FDStatSetRights\<close> never adds rights. On a live descriptor: if
  the requested base rights masked to \<open>AllRights\<close>, or the requested inheriting rights
  masked to \<open>AllRights\<close>, are not included in the entry's current ones, the call returns
  \<open>ENOTCAPABLE\<close> and the provider is unchanged; otherwise it returns \<open>ESUCCESS\<close>, the
  descriptor still names the same entry, and the entry's new base and inheriting rights
  are the masked requests, each included in the prior set.
\<close>

theorem FDStatSetRights_never_adds:
  assumes live: "Table_Lookup (fds p) gfd = Some f"
  shows "if \<not> rights_subset (rightsBase AND AllRights) (RightsBase (stat (store p f)))
            \<or> \<not> rights_subset (rightsInheriting AND AllRights)
                  (RightsInheriting (stat (store p f)))
         then FDStatSetRights p gfd rightsBase rightsInheriting = (ENOTCAPABLE, p)
         else (case FDStatSetRights p gfd rightsBase rightsInheriting of
                 (errno, p') \<Rightarrow>
                   errno = ESUCCESS
                 \<and> Table_Lookup (fds p') gfd = Some f
                 \<and> RightsBase (stat (store p' f)) = rightsBase AND AllRights
                 \<and> RightsInheriting (stat (store p' f)) = rightsInheriting AND AllRights
                 \<and> rights_subset (RightsBase (stat (store p' f))) (RightsBase (stat (store p f)))
                 \<and> rights_subset (RightsInheriting (stat (store p' f)))
                      (RightsInheriting (stat (store p f))))"
proof -
  have lk: "lookupFD p gfd 0 = Inr f"
    using live by (simp add: lookupFD_def Has_def)
  show ?thesis
    using lk live
    by (auto simp: FDStatSetRights_def Let_def set_stat_def rights_subset_and
        rights_subset_def[symmetric])
qed

theorem FDStatSetRights_never_adds_witness:
  "Table_Lookup (fds tmp_Provider) 0 = Some 0
   \<and> fst (FDStatSetRights tmp_Provider 0 FDReadRight 0) = ESUCCESS
   \<and> RightsBase (stat (store (snd (FDStatSetRights tmp_Provider 0 FDReadRight 0)) 0))
       = FDReadRight
   \<and> FDStatSetRights (snd (FDStatSetRights tmp_Provider 0 FDReadRight 0)) 0 AllRights 0
       = (ENOTCAPABLE, snd (FDStatSetRights tmp_Provider 0 FDReadRight 0))"
proof -
  have live: "Table_Lookup (fds tmp_Provider) 0 = Some 0"
    by (simp add: tmp_Provider_eval Table_Lookup_def)
  show ?thesis
    using FDStatSetRights_never_adds [OF live, of FDReadRight 0]
    by (simp add: FDStatSetRights_def lookupFD_def Table_Lookup_def tmp_Provider_eval Has_def
        set_stat_def dir_stat_def AllRights_def FDReadRight_def rights_subset_def Let_def)
qed

text \<open>
  C4 as stated fails: the code masks the requested inheriting rights to \<open>AllRights\<close> as
  it does the base rights. On the pre-opened directory, whose rights are \<open>AllRights\<close>, a
  request for no base rights and for the inheriting right of bit 40 is not included in the
  current inheriting rights; the call does not return \<open>ENOTCAPABLE\<close>: it returns
  \<open>ESUCCESS\<close> and leaves the entry with no rights of either kind.
\<close>

theorem FDStatSetRights_unmasked_inheriting:
  "Table_Lookup (fds tmp_Provider) 0 = Some 0
   \<and> RightsBase (stat (store tmp_Provider 0)) = AllRights
   \<and> RightsInheriting (stat (store tmp_Provider 0)) = AllRights
   \<and> rights_subset 0 (RightsBase (stat (store tmp_Provider 0)))
   \<and> \<not> rights_subset (push_bit 40 1) (RightsInheriting (stat (store tmp_Provider 0)))
   \<and> fst (FDStatSetRights tmp_Provider 0 0 (push_bit 40 1)) = ESUCCESS
   \<and> RightsBase (stat (store (snd (FDStatSetRights tmp_Provider 0 0 (push_bit 40 1))) 0)) = 0
   \<and> RightsInheriting (stat (store (snd (FDStatSetRights tmp_Provider 0 0 (push_bit 40 1))) 0))
       = 0"
  by (simp add: FDStatSetRights_def lookupFD_def Table_Lookup_def tmp_Provider_eval Has_def
      set_stat_def dir_stat_def AllRights_def rights_subset_def Let_def)

subsection \<open>PathOpen and the parent directory\<close>

text \<open>
  C1. \<open>PathOpen\<close> is to reject a path that normalizes to \<open>..\<close>. On the pre-opened
  directory \<open>/tmp\<close> with the path \<open>..\<close> (which \<open>Clean\<close> leaves as it is) and a host
  whose calls succeed, the path passes the prefix test: \<open>openat\<close> is called on \<open>..\<close>, the
  call returns \<open>ESUCCESS\<close> and the new descriptor 1 is in the table.
\<close>

theorem PathOpen_dotdot_not_rejected:
  "Clean ''..'' = ''..''
   \<and> fst (PathOpen quiet_host tmp_Provider 0 0 ''..'' OpenDirectory 0 0 0) = (1, ESUCCESS)
   \<and> Table_Lookup (fds tmp_Provider) 1 = None
   \<and> Table_Lookup
        (fds (fst (snd (PathOpen quiet_host tmp_Provider 0 0 ''..'' OpenDirectory 0 0 0)))) 1
       = Some 1
   \<and> snd (snd (PathOpen quiet_host tmp_Provider 0 0 ''..'' OpenDirectory 0 0 0))
       = [SysOpenat 5 ''..'' (O_CLOEXEC OR O_DIRECTORY OR O_NOFOLLOW) 0]"
  by (simp add: PathOpen_def lookupFD_def Table_Lookup_def tmp_Provider_eval dir_stat_def Has_def
      AllRights_def PathOpenRight_def Clean_dotdot HasPrefix_def OpenFlags_Has_def OpenDirectory_def
      OpenCreate_def OpenTruncate_def OpenExclusive_def openat_flags_def FDFlags_Has_def
      Append_def DSync_def Sync_def NonBlock_def LookupFlags_Has_def SymlinkFollow_def
      O_CLOEXEC_def O_DIRECTORY_def O_NOFOLLOW_def O_RDONLY_def quiet_host_def new_fdinfo_def
      Table_Insert_def Let_def)

subsection \<open>FDRenumber\<close>

text \<open>
  C2. \<open>FDRenumber\<close> is to move the entry and return \<open>ESUCCESS\<close>. With the live
  descriptors 1 and 2, neither a pre-open, \<open>FDRenumber 1 2\<close> closes the handle evicted from
  slot 2 and stores the entry there, but it returns \<open>ENOSYS\<close> and slot 1 still holds the
  entry.
\<close>

theorem FDRenumber_returns_ENOSYS:
  "\<not> isPreopen two_files_Provider 1 \<and> \<not> isPreopen two_files_Provider 2
   \<and> lookupFD two_files_Provider 1 0 = Inr 1
   \<and> FDRenumber two_files_Provider 1 2
       = Some (ENOSYS, two_files_Provider\<lparr>fds := [Some 0, Some 1, Some 1]\<rparr>, [SysClose 7])"
  by (simp add: FDRenumber_def isPreopen_def lookupFD_def Table_Lookup_def Table_Assign_def
      two_files_Provider_def Has_def)

subsection \<open>FDStatSetFlags\<close>

text \<open>
  C5. \<open>FDStatSetFlags\<close> is to fail with \<open>ENOSYS\<close> when the changed flags include any of
  \<open>Sync\<close>, \<open>DSync\<close>, \<open>RSync\<close>. On a descriptor holding \<open>FDStatSetFlagsRight\<close> whose
  flags are empty, requesting \<open>Sync\<close> alone changes one of the three bits, yet the test
  \<open>Has\<close> asks for all three: the call goes on to both \<open>fcntl\<close> calls, returns
  \<open>ESUCCESS\<close> and records \<open>Sync\<close> in the cached flags.
\<close>

theorem FDStatSetFlags_Sync_alone:
  "lookupFD tmp_Provider 0 FDStatSetFlagsRight = Inr 0
   \<and> (Sync XOR Flags (stat (store tmp_Provider 0))) AND (Sync OR DSync OR RSync) \<noteq> 0
   \<and> fst (FDStatSetFlags quiet_host tmp_Provider 0 Sync) = ESUCCESS
   \<and> snd (snd (FDStatSetFlags quiet_host tmp_Provider 0 Sync))
       = [SysFcntlGetFL 5, SysFcntlSetFL 5 0]
   \<and> Flags (stat (store (fst (snd (FDStatSetFlags quiet_host tmp_Provider 0 Sync))) 0)) = Sync"
  by (simp add: FDStatSetFlags_def lookupFD_def Table_Lookup_def tmp_Provider_eval dir_stat_def
      Has_def AllRights_def FDStatSetFlagsRight_def FDFlags_Has_def Sync_def DSync_def RSync_def
      Append_def NonBlock_def quiet_host_def set_stat_def O_APPEND_def O_NONBLOCK_def Let_def)

subsection \<open>FDTell\<close>

text \<open>
  C6. \<open>FDSeekRight\<close> is to imply \<open>FDTellRight\<close>. After the rights of the pre-opened
  descriptor are reduced to \<open>FDSeekRight\<close> alone, the descriptor is live and holds
  \<open>FDSeekRight\<close>; \<open>FDSeek\<close> with delta 0 from the current position is let through to
  \<open>lseek\<close>, but \<open>FDTell\<close> returns \<open>ENOTCAPABLE\<close> without a host call.
\<close>

theorem FDTell_needs_FDTellRight:
  "fst (FDStatSetRights tmp_Provider 0 FDSeekRight 0) = ESUCCESS
   \<and> lookupFD (snd (FDStatSetRights tmp_Provider 0 FDSeekRight 0)) 0 FDSeekRight = Inr 0
   \<and> FDSeek quiet_host (snd (FDStatSetRights tmp_Provider 0 FDSeekRight 0)) 0 0 SeekCurrent
       = ((0, ESUCCESS), [SysLseek 5 0 SEEK_CUR])
   \<and> FDTell quiet_host (snd (FDStatSetRights tmp_Provider 0 FDSeekRight 0)) 0
       = ((0, ENOTCAPABLE), [])"
  by (simp add: FDStatSetRights_def FDSeek_def FDTell_def fdseek_def lookupFD_def Table_Lookup_def
      tmp_Provider_eval dir_stat_def Has_def AllRights_def FDSeekRight_def FDTellRight_def
      set_stat_def quiet_host_def SeekCurrent_def SeekStart_def SeekEnd_def SEEK_CUR_def
      makeErrno_def Let_def)

subsection \<open>PathOpen and rights\<close>

text \<open>
  C3, as the code has it. Let the directory descriptor pass its lookup with
  \<open>PathOpenRight\<close>. If \<open>PathOpen\<close> succeeds with the new descriptor \<open>g\<close>, then \<open>g\<close> was
  free before, it names a new entry, the entry's inheriting rights are the requested ones
  intersected with \<open>AllRights\<close> and with the directory's inheriting rights, and its base
  rights are the same intersection of the requested base rights, less \<open>FDSeekRight\<close> when
  \<open>OpenDirectory\<close> is requested. If the normalized path is not rejected and the requested
  base rights or the requested inheriting rights, masked to \<open>AllRights\<close>, are not included
  in the directory's inheriting rights, the call returns \<open>ENOTCAPABLE\<close>, the provider is
  unchanged and no host call is made.
\<close>

theorem PathOpen_rights:
  assumes dir: "lookupFD p gfd PathOpenRight = Inr d"
  shows "(PathOpen h p gfd lookupFlags pth openFlags rightsBase rightsInheriting fdFlags
            = ((g, ESUCCESS), p', calls) \<longrightarrow>
            Table_Lookup (fds p) g = None
          \<and> Table_Lookup (fds p') g = Some (next_ref p)
          \<and> RightsBase (stat (store p' (next_ref p)))
              = (if OpenFlags_Has openFlags OpenDirectory
                 then ((rightsBase AND AllRights) AND RightsInheriting (stat (store p d)))
                        AND NOT FDSeekRight
                 else (rightsBase AND AllRights) AND RightsInheriting (stat (store p d)))
          \<and> RightsInheriting (stat (store p' (next_ref p)))
              = (rightsInheriting AND AllRights) AND RightsInheriting (stat (store p d)))
       \<and> (\<not> HasPrefix (Clean pth) ''/'' \<and> \<not> HasPrefix (Clean pth) ''../''
          \<and> (\<not> rights_subset (rightsBase AND AllRights) (RightsInheriting (stat (store p d)))
             \<or> \<not> rights_subset (rightsInheriting AND AllRights)
                   (RightsInheriting (stat (store p d)))) \<longrightarrow>
            PathOpen h p gfd lookupFlags pth openFlags rightsBase rightsInheriting fdFlags
              = ((- 1, ENOTCAPABLE), p, []))"
proof (intro conjI impI)
  assume "\<not> HasPrefix (Clean pth) ''/'' \<and> \<not> HasPrefix (Clean pth) ''../''
          \<and> (\<not> rights_subset (rightsBase AND AllRights) (RightsInheriting (stat (store p d)))
             \<or> \<not> rights_subset (rightsInheriting AND AllRights)
                   (RightsInheriting (stat (store p d))))"
  then show "PathOpen h p gfd lookupFlags pth openFlags rightsBase rightsInheriting fdFlags
              = ((- 1, ENOTCAPABLE), p, [])"
    unfolding PathOpen_def dir sum.case Let_def rights_subset_def by auto
next
  let ?call = "PathOpen h p gfd lookupFlags pth openFlags rightsBase rightsInheriting fdFlags"
  let ?inh = "RightsInheriting (stat (store p d))"
  assume ok: "?call = ((g, ESUCCESS), p', calls)"
  have g1: "\<not> HasPrefix (Clean pth) ''/''" "\<not> HasPrefix (Clean pth) ''../''"
    using ok unfolding PathOpen_def dir sum.case Let_def by (auto split: if_splits)
  have g2: "(rightsBase AND AllRights) AND NOT ?inh = 0"
    using ok g1 unfolding PathOpen_def dir sum.case Let_def by (auto split: if_splits)
  have g3: "(rightsInheriting AND AllRights) AND NOT ?inh = 0"
    using ok g1 g2 unfolding PathOpen_def dir sum.case Let_def by (auto split: if_splits)
  have g4: "\<not> (OpenFlags_Has openFlags OpenCreate
               \<and> \<not> Has (RightsBase (stat (store p d))) PathCreateFileRight)"
    using ok g1 g2 g3 unfolding PathOpen_def dir sum.case Let_def by (auto split: if_splits)
  have g5: "\<not> (OpenFlags_Has openFlags OpenTruncate
               \<and> \<not> Has (RightsBase (stat (store p d))) PathFileStatSetSizeRight)"
    using ok g1 g2 g3 g4 unfolding PathOpen_def dir sum.case Let_def by (auto split: if_splits)
  define rb where "rb = (if OpenFlags_Has openFlags OpenDirectory
                   then ((rightsBase AND AllRights) AND ?inh) AND NOT FDSeekRight
                   else (rightsBase AND AllRights) AND ?inh)"
  define ri where "ri = (rightsInheriting AND AllRights) AND ?inh"
  define oflags where "oflags = openat_flags lookupFlags openFlags rb fdFlags"
  define ft where "ft = (if oflags AND O_DIRECTORY \<noteq> 0 then DirectoryType else RegularFileType)"
  define mode :: "32 word" where "mode = (if oflags AND O_DIRECTORY \<noteq> 0 then 0 else 420)"
  note form = PathOpen_passed [OF dir g1 g2 g3 g4 g5 rb_def ri_def oflags_def ft_def mode_def, of h]
  obtain hostfd where hf: "sys_openat h (fd (store p d)) pth oflags mode = Inr hostfd"
    using ok makeErrno_Some unfolding form by (cases "sys_openat h (fd (store p d)) pth oflags mode") auto
  obtain t k where ins: "Table_Insert (fds p) (next_ref p) = (t, k)"
    by (cases "Table_Insert (fds p) (next_ref p)")
  have gk: "g = k" and p': "p' = p\<lparr>store := (store p)(next_ref p :=
                       \<lparr>path = Join (path (store p d)) pth, fd = hostfd,
                        stat = \<lparr>FileType = ft, Flags = fdFlags, RightsBase = rb,
                                RightsInheriting = ri\<rparr>,
                        dirEntries = []\<rparr>),
                    next_ref := Suc (next_ref p), fds := t\<rparr>"
    using ok unfolding form hf by (simp_all add: ins)
  show "Table_Lookup (fds p) g = None"
    using Table_Insert_fresh(2) [OF ins] by (simp add: gk)
  show "Table_Lookup (fds p') g = Some (next_ref p)"
    using Table_Insert_fresh(1) [OF ins] by (simp add: p' gk)
  show "RightsBase (stat (store p' (next_ref p))) = (if OpenFlags_Has openFlags OpenDirectory
                 then ((rightsBase AND AllRights) AND RightsInheriting (stat (store p d)))
                        AND NOT FDSeekRight
                 else (rightsBase AND AllRights) AND RightsInheriting (stat (store p d)))"
    by (simp add: p' rb_def)
  show "RightsInheriting (stat (store p' (next_ref p)))
      = (rightsInheriting AND AllRights) AND RightsInheriting (stat (store p d))"
    by (simp add: p' ri_def)
qed


theorem PathOpen_rights_witness:
  "lookupFD tmp_Provider 0 PathOpenRight = Inr 0
   \<and> fst (PathOpen quiet_host tmp_Provider 0 0 ''a'' 0 FDReadRight 0 0) = (1, ESUCCESS)
   \<and> Table_Lookup (fds tmp_Provider) 1 = None
   \<and> RightsBase (stat (store
        (fst (snd (PathOpen quiet_host tmp_Provider 0 0 ''a'' 0 FDReadRight 0 0))) 1))
       = FDReadRight
   \<and> lookupFD inherit_read_Provider 0 PathOpenRight = Inr 0
   \<and> \<not> HasPrefix (Clean ''a'') ''/''
   \<and> \<not> HasPrefix (Clean ''a'') ''../''
   \<and> \<not> rights_subset (FDWriteRight AND AllRights)
         (RightsInheriting (stat (store inherit_read_Provider 0)))
   \<and> PathOpen quiet_host inherit_read_Provider 0 0 ''a'' 0 FDWriteRight 0 0
       = ((- 1, ENOTCAPABLE), inherit_read_Provider, [])"
proof -
  have d1: "lookupFD tmp_Provider 0 PathOpenRight = Inr 0"
    by (simp add: lookupFD_def Table_Lookup_def tmp_Provider_eval dir_stat_def Has_def
        AllRights_def PathOpenRight_def)
  have d2: "lookupFD inherit_read_Provider 0 PathOpenRight = Inr 0"
    by (simp add: lookupFD_def Table_Lookup_def inherit_read_Provider_eval Has_def
        AllRights_def PathOpenRight_def)
  have pre: "\<not> HasPrefix (Clean ''a'') ''/''" "\<not> HasPrefix (Clean ''a'') ''../''"
    "\<not> rights_subset (FDWriteRight AND AllRights)
         (RightsInheriting (stat (store inherit_read_Provider 0)))"
    by (simp_all add: Clean_a HasPrefix_def rights_subset_def inherit_read_Provider_eval
        FDWriteRight_def AllRights_def FDReadRight_def)
  show ?thesis
    using PathOpen_rights [OF d1, of quiet_host 0 "''a''" 0 FDReadRight 0 0 1
        "fst (snd (PathOpen quiet_host tmp_Provider 0 0 ''a'' 0 FDReadRight 0 0))"
        "snd (snd (PathOpen quiet_host tmp_Provider 0 0 ''a'' 0 FDReadRight 0 0))"]
      PathOpen_rights [OF d2, of quiet_host 0 "''a''" 0 FDWriteRight 0 0 0
        inherit_read_Provider "[]"] pre
    by (simp add: open_a d1 d2 tmp_Provider_eval Table_Lookup_def)
qed


text \<open>
  C3 as stated fails: opening \<open>sub\<close> with \<open>OpenDirectory\<close> and the requested base right
  \<open>FDSeekRight\<close> under a directory that inherits all rights succeeds, and the new entry's
  base rights are not the requested ones intersected with the directory's inheriting rights.
\<close>

theorem PathOpen_directory_drops_seek:
  "fst (PathOpen quiet_host tmp_Provider 0 0 ''sub'' OpenDirectory FDSeekRight 0 0)
     = (1, ESUCCESS)
   \<and> Table_Lookup
        (fds (fst (snd (PathOpen quiet_host tmp_Provider 0 0 ''sub'' OpenDirectory FDSeekRight 0 0))))
        1 = Some 1
   \<and> RightsBase (stat (store
        (fst (snd (PathOpen quiet_host tmp_Provider 0 0 ''sub'' OpenDirectory FDSeekRight 0 0))) 1))
       \<noteq> FDSeekRight AND RightsInheriting (stat (store tmp_Provider 0))"
  by (simp add: PathOpen_def lookupFD_def Table_Lookup_def tmp_Provider_eval dir_stat_def Has_def
      AllRights_def PathOpenRight_def FDSeekRight_def Clean_sub HasPrefix_def flag_defs
      openat_flags_def oflag_defs quiet_host_def new_fdinfo_def Table_Insert_def Let_def)


subsection \<open>FDClose\<close>

text \<open>
  C9, as the code has it. \<open>FDClose\<close> on a live descriptor, whatever its rights and
  whether or not it is a pre-open, makes exactly one host call, the close of the entry's
  handle, and returns its mapped result; afterwards the descriptor is in neither the
  descriptor table nor the pre-open set, every lookup of it (plain, pre-open, socket, for any
  rights) fails with \<open>EBADF\<close>, and so does every operation that starts with such a lookup:
  here \<open>FDClose\<close>, \<open>FDStatGet\<close>, \<open>FDStatSetFlags\<close>, \<open>FDStatSetRights\<close>, \<open>FDSeek\<close>,
  \<open>FDTell\<close>, \<open>FDReadDir\<close>, \<open>PathOpen\<close>, and \<open>PollOneOff\<close> when its first subscription
  is a read or write subscription on the descriptor. \<open>FDRenumber\<close> from the closed descriptor tests the pre-open set
  first: it returns \<open>ENOTSUP\<close> when its target is a pre-open, \<open>EBADF\<close> otherwise.
\<close>

theorem FDClose_removes:
  assumes live: "Table_Lookup (fds p) gfd = Some f"
  shows "case FDClose h p gfd of
           (errno, p', calls) \<Rightarrow>
             errno = makeErrno (sys_close h (fd (store p f)))
           \<and> calls = [SysClose (fd (store p f))]
           \<and> Table_Lookup (fds p') gfd = None
           \<and> \<not> isPreopen p' gfd
           \<and> lookupFD p' gfd rights = Inl EBADF
           \<and> lookupPreopenFD p' gfd rights = Inl EBADF
           \<and> lookupSocketFD p' gfd rights = Inl EBADF
           \<and> FDClose h' p' gfd = (EBADF, p', [])
           \<and> FDStatGet p' gfd = (None, EBADF)
           \<and> FDStatSetFlags h' p' gfd flags = (EBADF, p', [])
           \<and> FDStatSetRights p' gfd rightsBase rightsInheriting = (EBADF, p')
           \<and> FDSeek h' p' gfd delta whence = ((0, EBADF), [])
           \<and> FDTell h' p' gfd = ((0, EBADF), [])
           \<and> FDReadDir h' makeFileType p' gfd buffer bufferSizeBytes cookie = (([], EBADF), p', [])
           \<and> PathOpen h' p' gfd lookupFlags pth openFlags rightsBase rightsInheriting fdFlags
               = ((- 1, EBADF), p', [])
           \<and> FDRenumber p' gfd to = Some (if isPreopen p' to then ENOTSUP else EBADF, p', [])
           \<and> (is_fd_subscription s \<and> FD (GetFDReadWrite s) = gfd \<longrightarrow>
                PollOneOff h' p' (s # ss) events = (Return (events, EBADF), p'\<lparr>pollfds := []\<rparr>, []))"
proof -
  define p' where "p' = p\<lparr>fds := Table_Delete (fds p) gfd,
                            preopens := Table_Delete (preopens p) gfd\<rparr>"
  have lk: "lookupFD p gfd 0 = Inr f"
    using live by (simp add: lookupFD_def Has_def)
  have close: "FDClose h p gfd
      = (makeErrno (sys_close h (fd (store p f))), p', [SysClose (fd (store p f))])"
    using lk by (simp add: FDClose_def Let_def p'_def)
  have gone: "Table_Lookup (fds p') gfd = None"
    by (simp add: p'_def Table_Lookup_Delete)
  have nopre: "\<not> isPreopen p' gfd"
    by (simp add: p'_def isPreopen_def Table_Lookup_Delete)
  have bad: "lookupFD p' gfd r = Inl EBADF" for r
    using gone by (rule lookupFD_closed)
  have poll: "is_fd_subscription s \<and> FD (GetFDReadWrite s) = gfd \<longrightarrow>
                PollOneOff h' p' (s # ss) events = (Return (events, EBADF), p'\<lparr>pollfds := []\<rparr>, [])"
    by (auto simp: PollOneOff_def poll_subscribe_fd bad simp del: poll_subscribe.simps)
  show ?thesis
    unfolding close
    using gone nopre poll
    by (simp add: bad lookupPreopenFD_def lookupSocketFD_def FDClose_def FDStatGet_def
        FDStatSetFlags_def FDStatSetRights_def FDSeek_def FDTell_def fdseek_def FDReadDir_def
        PathOpen_def FDRenumber_def)
qed


theorem FDClose_removes_witness:
  "Table_Lookup (fds two_files_Provider) 1 = Some 1
   \<and> FDClose quiet_host two_files_Provider 1
       = (ESUCCESS, two_files_Provider\<lparr>fds := [Some 0, None, Some 2], preopens := [Some ()]\<rparr>,
          [SysClose 6])
   \<and> FDTell quiet_host (fst (snd (FDClose quiet_host two_files_Provider 1))) 1
       = ((0, EBADF), [])
   \<and> is_fd_subscription (read_sub 1)
   \<and> FD (GetFDReadWrite (read_sub 1)) = 1
   \<and> fst (PollOneOff quiet_host (fst (snd (FDClose quiet_host two_files_Provider 1)))
            [read_sub 1] []) = Return ([], EBADF)"
proof -
  have live: "Table_Lookup (fds two_files_Provider) 1 = Some 1"
    by (simp add: two_files_Provider_def Table_Lookup_def)
  have closed: "FDClose quiet_host two_files_Provider 1
       = (ESUCCESS, two_files_Provider\<lparr>fds := [Some 0, None, Some 2], preopens := [Some ()]\<rparr>,
          [SysClose 6])"
    by (simp add: FDClose_def Let_def lookupFD_def Table_Lookup_def Table_Delete_def Has_def
        two_files_Provider_def quiet_host_def makeErrno_def)
  show ?thesis
    using FDClose_removes [OF live, of quiet_host 0 quiet_host 0 0 0 0 0 "\<lambda>m. UnknownType"
        "[]" 0 0 0 "[]" 0 0 0 "read_sub 1" "[]" "[]"]
    by (simp add: closed live sub_types) (simp add: read_sub_def)
qed

text \<open>
  C9 as stated fails for \<open>FDRenumber\<close>: after descriptor 1 is closed, renumbering it onto
  the pre-open 0 returns \<open>ENOTSUP\<close>, not \<open>EBADF\<close>.
\<close>

theorem FDRenumber_after_FDClose:
  "Table_Lookup (fds two_files_Provider) 1 = Some 1
   \<and> map_option fst
        (FDRenumber (fst (snd (FDClose quiet_host two_files_Provider 1))) 1 0) = Some ENOTSUP"
  by (simp add: FDClose_def Let_def FDRenumber_def isPreopen_def lookupFD_def Table_Lookup_def
      Table_Delete_def Has_def two_files_Provider_def quiet_host_def)

subsection \<open>PollOneOff and unsupported clocks\<close>

text \<open>
  C7, as the code has it. If the subscription list holds a clock subscription whose clock is
  not \<open>Monotonic\<close> or whose flags include \<open>Abstime\<close>, and every read or write
  subscription before it passes its descriptor lookup, \<open>PollOneOff\<close> returns \<open>ENOSYS\<close>
  with the events list as it was given, and makes no host call.
\<close>

theorem PollOneOff_unsupported_clock:
  assumes "unsupported_clock c" and "fd_lookups_pass p pre"
  shows "fst (PollOneOff h p (pre @ c # post) events) = Return (events, ENOSYS)
       \<and> snd (snd (PollOneOff h p (pre @ c # post) events)) = []"
  using poll_subscribe_unsupported [OF assms, of post "- 1" "[]"]
  by (cases "poll_subscribe p (pre @ c # post) (- 1) []") (simp add: PollOneOff_def)

theorem PollOneOff_unsupported_clock_witness:
  "unsupported_clock (clock_sub Realtime 0 0)
   \<and> fd_lookups_pass tmp_Provider [read_sub 0]
   \<and> fst (PollOneOff quiet_host tmp_Provider [read_sub 0, clock_sub Realtime 0 0] [])
       = Return ([], ENOSYS)
   \<and> unsupported_clock (clock_sub Monotonic 5 Abstime)
   \<and> fst (PollOneOff quiet_host tmp_Provider [clock_sub Monotonic 5 Abstime] [read_event])
       = Return ([read_event], ENOSYS)"
proof -
  have c1: "unsupported_clock (clock_sub Realtime 0 0)"
    by (simp add: unsupported_clock_def clock_sub_def Realtime_def Monotonic_def)
  have r0: "is_fd_subscription (read_sub 0)"
    by (rule sub_types)
  have c2: "unsupported_clock (clock_sub Monotonic 5 Abstime)"
    by (simp add: unsupported_clock_def clock_sub_def SubscriptionClockFlags_Has_def)
  have p1: "fd_lookups_pass tmp_Provider [read_sub 0]"
    by (simp add: fd_lookups_pass_def r0) (simp add: lookup_passes_def read_sub_def lookup_poll_tmp)
  have p2: "fd_lookups_pass tmp_Provider []"
    by (simp add: fd_lookups_pass_def)
  show ?thesis
    using PollOneOff_unsupported_clock [OF c1 p1, of quiet_host "[]" "[]"]
      PollOneOff_unsupported_clock [OF c2 p2, of quiet_host "[]" "[read_event]"] c1 c2 p1
    by simp
qed

text \<open>
  C7 as stated fails: subscriptions are examined in order, so a read subscription on a
  descriptor that is not open, placed before a realtime clock subscription, makes the call
  return \<open>EBADF\<close>.
\<close>

theorem PollOneOff_lookup_fails_first:
  "unsupported_clock (clock_sub Realtime 0 0)
   \<and> fst (PollOneOff quiet_host tmp_Provider [read_sub 9, clock_sub Realtime 0 0] [])
       = Return ([], EBADF)"
proof -
  have "lookupFD tmp_Provider (FD (GetFDReadWrite (read_sub 9))) PollFDReadWriteRight = Inl EBADF"
    by (simp add: read_sub_def lookup_poll_tmp)
  then have "poll_subscribe tmp_Provider [read_sub 9, clock_sub Realtime 0 0] (- 1) []
      = (Inl EBADF, [])"
    by (simp add: poll_subscribe_fd [OF sub_types(1)] del: poll_subscribe.simps)
  then show ?thesis
    by (simp add: PollOneOff_def unsupported_clock_def clock_sub_def Realtime_def Monotonic_def)
qed

subsection \<open>PollOneOff and the events list\<close>

text \<open>
  C10, as the code has it. Let every subscription pass the first loop, at least one of them
  be a read or write subscription, the host poll succeed, and its result \<open>n\<close> be the number
  of poll slots it reports ready. If every subscription is a clock, read or write
  subscription, the second loop appends exactly \<open>n\<close> events to the list it was given, and
  the call panics if the given list was not empty and returns the \<open>n\<close> events with
  \<open>ESUCCESS\<close> if it was. If some subscription has another event type, the second loop
  reads a poll slot for it that the first loop never made, and the call panics on the index.
  So the call panics if and only if the events list was non-empty on entry or some
  subscription has an event type other than the three.
\<close>

theorem PollOneOff_panics_iff_events:
  assumes subs: "poll_subscribe p subscriptions (- 1) [] = (Inr timeout, pfds)"
    and fdsub: "list_ex is_fd_subscription subscriptions"
    and poll: "sys_poll h pfds (if timeout < 0 then - 1 else timeout div 1000000)
                 = Inr (n, revents)"
    and ready: "n = int (ready_count revents (length pfds))"
  shows "if list_all known_event_type subscriptions
         then (\<exists>new. poll_events (set_revents revents pfds) subscriptions 0 events
                        = Some (events @ new)
                 \<and> int (length new) = n
                 \<and> fst (PollOneOff h p subscriptions events)
                     = (if events = [] then Return (new, ESUCCESS)
                        else Panic ''unexpected unix.Poll result''))
         else fst (PollOneOff h p subscriptions events) = Panic ''index out of range''"
proof -
  have len: "length pfds = length (fd_subscriptions subscriptions)"
    using poll_subscribe_length [OF subs] by simp
  have "fd_subscriptions subscriptions \<noteq> []"
    using fdsub by (auto simp: fd_subscriptions_def list_ex_iff filter_empty_conv)
  then have ne: "length pfds \<noteq> 0" and sne: "length subscriptions \<noteq> 0"
    using len by (auto simp: fd_subscriptions_def)
  show ?thesis
  proof (cases "list_all known_event_type subscriptions")
    case True
    have slots: "length (slot_subscriptions subscriptions) = length pfds"
      using slots_known [OF True] len by simp
    obtain new where
      ev: "poll_events (set_revents revents pfds) subscriptions 0 events = Some (events @ new)"
      and cnt: "length new = length (filter (\<lambda>i. Revents (set_revents revents pfds ! i) \<noteq> 0)
                                     [0..<0 + length (slot_subscriptions subscriptions)])"
      using poll_events_count [of 0 subscriptions "set_revents revents pfds" events]
      by (auto simp: set_revents_length slots)
    have n: "int (length new) = n"
      using cnt ready ready_count_polled [of revents pfds] by (simp add: slots)
    have "fst (PollOneOff h p subscriptions events)
                 = (if events = [] then Return (new, ESUCCESS)
                    else Panic ''unexpected unix.Poll result'')"
      using sne ne n by (simp add: PollOneOff_def subs poll ev Let_def)
    then show ?thesis
      using True ev n by auto
  next
    case False
    have "length (set_revents revents pfds) < 0 + length (slot_subscriptions subscriptions)"
      using slots_unknown [OF False] len by (simp add: set_revents_length)
    then have "poll_events (set_revents revents pfds) subscriptions 0 events = None"
      by (intro poll_events_None) simp_all
    then show ?thesis
      using False sne ne by (simp add: PollOneOff_def subs poll Let_def)
  qed
qed

theorem PollOneOff_panics_iff_events_witness:
  "poll_subscribe tmp_Provider [read_sub 0] (- 1) []
     = (Inr (- 1), [\<lparr>Fd = 5, Events = POLLIN, Revents = 0\<rparr>])
   \<and> poll_subscribe tmp_Provider [read_sub 0, other_sub] (- 1) []
     = (Inr (- 1), [\<lparr>Fd = 5, Events = POLLIN, Revents = 0\<rparr>])
   \<and> list_ex is_fd_subscription [read_sub 0]
   \<and> list_all known_event_type [read_sub 0]
   \<and> sys_poll ready_host [\<lparr>Fd = 5, Events = POLLIN, Revents = 0\<rparr>] (- 1)
       = Inr (1, \<lambda>i. POLLIN)
   \<and> 1 = int (ready_count (\<lambda>i. POLLIN) 1)
   \<and> fst (PollOneOff ready_host tmp_Provider [read_sub 0] []) = Return ([read_event], ESUCCESS)
   \<and> fst (PollOneOff ready_host tmp_Provider [read_sub 0] [read_event])
       = Panic ''unexpected unix.Poll result''
   \<and> fst (PollOneOff ready_host tmp_Provider [read_sub 0, other_sub] [])
       = Panic ''index out of range''"
proof -
  have fdsub: "list_ex is_fd_subscription [read_sub 0]"
    and fdsub2: "list_ex is_fd_subscription [read_sub 0, other_sub]"
    and known: "list_all known_event_type [read_sub 0]"
    and unknown: "\<not> list_all known_event_type [read_sub 0, other_sub]"
    by (simp_all add: sub_types)
  have poll: "sys_poll ready_host [\<lparr>Fd = 5, Events = POLLIN, Revents = 0\<rparr>]
       (if (- 1 :: int) < 0 then - 1 else - 1 div 1000000) = Inr (1, \<lambda>i. POLLIN)"
    by (simp add: ready_host_def quiet_host_def)
  have ready: "1 = int (ready_count (\<lambda>i. POLLIN) (length [\<lparr>Fd = 5, Events = POLLIN, Revents = 0\<rparr>]))"
    by (simp add: ready_count_def POLLIN_def)
  have ev: "poll_events (set_revents (\<lambda>i. POLLIN) [\<lparr>Fd = 5, Events = POLLIN, Revents = 0\<rparr>])
      [read_sub 0] 0 evs = Some (evs @ [read_event])" for evs
    by (simp add: set_revents_def read_sub_def make_Event_def read_event_def POLLIN_def
        POLLOUT_def POLLERR_def POLLHUP_def ClockEvent_def FDReadEvent_def FDWriteEvent_def
        Let_def)
  obtain new where
    a: "poll_events (set_revents (\<lambda>i. POLLIN) [\<lparr>Fd = 5, Events = POLLIN, Revents = 0\<rparr>])
          [read_sub 0] 0 [] = Some ([] @ new)"
    and b: "fst (PollOneOff ready_host tmp_Provider [read_sub 0] [])
          = (if ([] :: Event list) = [] then Return (new, ESUCCESS)
             else Panic ''unexpected unix.Poll result'')"
    using PollOneOff_panics_iff_events [OF subscribe_read_0 fdsub poll ready, of "[]"] known
    by auto
  have new: "new = [read_event]"
    using a unfolding ev by simp
  have r1: "fst (PollOneOff ready_host tmp_Provider [read_sub 0] [])
      = Return ([read_event], ESUCCESS)"
    using b new by simp
  have r2: "fst (PollOneOff ready_host tmp_Provider [read_sub 0] [read_event])
      = Panic ''unexpected unix.Poll result''"
    using PollOneOff_panics_iff_events [OF subscribe_read_0 fdsub poll ready, of "[read_event]"]
      known
    by auto
  have r3: "fst (PollOneOff ready_host tmp_Provider [read_sub 0, other_sub] [])
      = Panic ''index out of range''"
    using PollOneOff_panics_iff_events [OF subscribe_read_other fdsub2 poll ready, of "[]"]
      unknown
    by simp
  show ?thesis
    using subscribe_read_0 subscribe_read_other fdsub known poll ready r1 r2 r3 by simp
qed

text \<open>
  C10 as stated fails: with a read subscription on a live descriptor followed by a
  subscription of another event type, the lookups pass, the host poll succeeds and the
  events list is empty on entry, yet the call panics.
\<close>

theorem PollOneOff_panics_on_other_event_type:
  "poll_subscribe tmp_Provider [read_sub 0, other_sub] (- 1) []
     = (Inr (- 1), [\<lparr>Fd = 5, Events = POLLIN, Revents = 0\<rparr>])
   \<and> is_fd_subscription (read_sub 0)
   \<and> sys_poll ready_host [\<lparr>Fd = 5, Events = POLLIN, Revents = 0\<rparr>] (- 1)
       = Inr (1, \<lambda>i. POLLIN)
   \<and> fst (PollOneOff ready_host tmp_Provider [read_sub 0, other_sub] [])
       = Panic ''index out of range''"
proof -
  have none: "poll_events (set_revents (\<lambda>i. POLLIN) [\<lparr>Fd = 5, Events = POLLIN, Revents = 0\<rparr>])
      [read_sub 0, other_sub] 0 [] = None"
    by (simp add: set_revents_def read_sub_def other_sub_def POLLIN_def ClockEvent_def
        FDReadEvent_def)
  have host: "sys_poll ready_host [\<lparr>Fd = 5, Events = POLLIN, Revents = 0\<rparr>] (- 1)
       = Inr (1, \<lambda>i. POLLIN)"
    by (simp add: ready_host_def quiet_host_def)
  have res: "fst (PollOneOff ready_host tmp_Provider [read_sub 0, other_sub] [])
       = Panic ''index out of range''"
    by (simp add: PollOneOff_def subscribe_read_other host none Let_def
        del: poll_subscribe.simps poll_events.simps)
  show ?thesis
    by (intro conjI subscribe_read_other sub_types(1) host res)
qed

subsection \<open>FDReadDir\<close>

text \<open>
  C8, as the code has it. Let the descriptor pass its lookup with \<open>FDReadDirRight\<close>, and
  let \<open>entries\<close> be the cached listing after the call. If the cookie is 0 and the host
  listing succeeds, \<open>entries\<close> is the host listing followed by the synthetic entries:
  \<open>.\<close> if the path can be stat'ed, then \<open>..\<close> if its parent can. If the cookie is 0 and
  the host listing fails, the call returns the buffer as given with the host's error and
  changes nothing. If the cookie is not 0 the cached listing is as before. If the cookie
  exceeds \<open>MaxInt\<close> the call returns \<open>EINVAL\<close> with the buffer as given. Otherwise the
  call returns the buffer extended with the entries of indices \<open>cookie..<k\<close>, the entry of
  index \<open>i\<close> having \<open>Next = i + 1\<close>, where \<open>Info()\<close> succeeds on each of these entries
  and the bytes counted before each of them are under the limit, and where either \<open>k\<close> is
  the end of the listing or the bytes counted before \<open>k\<close> reach the limit, and the call
  returns \<open>ESUCCESS\<close>, or \<open>Info()\<close> fails on entry \<open>k\<close>, and the call returns that
  error.
\<close>

theorem FDReadDir_listing:
  assumes lk: "lookupFD p gfd FDReadDirRight = Inr f"
  shows "(let entries = dirEntries (store (fst (snd
                (FDReadDir h makeFileType p gfd buffer bufferSizeBytes cookie))) f);
              c = unat cookie
          in (cookie = 0 \<and> os_ReadDir h (path (store p f)) = Inr es \<longrightarrow>
                entries = es @ dot_entries h (path (store p f)))
           \<and> (cookie = 0 \<and> os_ReadDir h (path (store p f)) = Inl err \<longrightarrow>
                FDReadDir h makeFileType p gfd buffer bufferSizeBytes cookie
                  = ((buffer, makeErrno (Some err)), p, [OsReadDir (path (store p f))]))
           \<and> (cookie \<noteq> 0 \<longrightarrow> entries = dirEntries (store p f))
           \<and> (MaxInt < cookie \<longrightarrow>
                FDReadDir h makeFileType p gfd buffer bufferSizeBytes cookie
                  = ((buffer, EINVAL), p, []))
           \<and> (cookie \<le> MaxInt \<and> (cookie \<noteq> 0 \<or> listing_refreshed h p f) \<longrightarrow>
                (\<exists>k\<ge>c.
                   fst (fst (FDReadDir h makeFileType p gfd buffer bufferSizeBytes cookie))
                     = buffer @ map (output_entry makeFileType entries) [c..<k]
                 \<and> (\<forall>j. c \<le> j \<and> j < k \<longrightarrow>
                        j < length entries \<and> info_ok (entries ! j)
                      \<and> listing_bytes entries c j < bufferSizeBytes)
                 \<and> snd (fst (FDReadDir h makeFileType p gfd buffer bufferSizeBytes cookie))
                     = (if k < length entries \<and> listing_bytes entries c k < bufferSizeBytes
                        then info_errno (entries ! k) else ESUCCESS)
                 \<and> (k < length entries \<and> listing_bytes entries c k < bufferSizeBytes \<longrightarrow>
                        \<not> info_ok (entries ! k))))
           \<and> (\<forall>i. Next (Entry (output_entry makeFileType entries i)) = of_nat (i + 1)
                  \<and> Name (output_entry makeFileType entries i) = de_Name (entries ! i)))"
proof -
  have fields: "Next (Entry (output_entry makeFileType entries i)) = of_nat (i + 1)
      \<and> Name (output_entry makeFileType entries i) = de_Name (entries ! i)" for entries i
    by (simp add: output_entry_def make_DirEntryName_def)
  show ?thesis
    using FDReadDir_cases [OF lk, of h makeFileType buffer bufferSizeBytes cookie es err]
    by (simp add: Let_def fields)
qed

theorem FDReadDir_listing_witness:
  "lookupFD tmp_Provider 0 FDReadDirRight = Inr 0
   \<and> lookupFD listed_Provider 0 FDReadDirRight = Inr 0
   \<and> os_ReadDir listing_host (path (store tmp_Provider 0)) = Inr [file_a, file_bb]
   \<and> os_ReadDir enoent_host (path (store tmp_Provider 0)) = Inl HENOENT
   \<and> MaxInt < push_bit 63 1
   \<and> (2 :: 64 word) \<le> MaxInt
   \<and> listing_refreshed stale_host tmp_Provider 0
   \<and> dirEntries (store (fst (snd (FDReadDir listing_host regular tmp_Provider 0 [] 30 0))) 0)
       = [file_a, file_bb, statDirEntry ''.'' \<lparr>Mode = 0, Ino = 0\<rparr>,
          statDirEntry ''..'' \<lparr>Mode = 0, Ino = 0\<rparr>]
   \<and> fst (FDReadDir listing_host regular tmp_Provider 0 [] 30 0) = ([out_a, out_bb], ESUCCESS)
   \<and> listing_bytes [file_a, file_bb] 0 1 = 25
   \<and> listing_bytes [file_a, file_bb] 0 2 = 51
   \<and> FDReadDir enoent_host regular tmp_Provider 0 [] 30 0
       = (([], ENOENT), tmp_Provider, [OsReadDir ''/tmp''])
   \<and> FDReadDir listing_host regular tmp_Provider 0 [] 30 (push_bit 63 1)
       = (([], EINVAL), tmp_Provider, [])
   \<and> FDReadDir listing_host regular listed_Provider 0 [] 1000 2
       = (([out_dot, out_dotdot], ESUCCESS), listed_Provider, [])
   \<and> fst (FDReadDir stale_host regular tmp_Provider 0 [] 10 0) = ([out_a], ESUCCESS)
   \<and> fst (FDReadDir stale_host regular tmp_Provider 0 [] 1000 0) = ([out_a], ENOENT)
   \<and> \<not> info_ok gone_b"
proof -
  have big: "MaxInt < (push_bit 63 1 :: 64 word)" and small: "(2 :: 64 word) \<le> MaxInt"
    by (simp_all add: MaxInt_def)
  have host: "os_ReadDir listing_host (path (store tmp_Provider 0)) = Inr [file_a, file_bb]"
    "os_ReadDir enoent_host (path (store tmp_Provider 0)) = Inl HENOENT"
    "listing_refreshed stale_host tmp_Provider 0"
    by (simp_all add: listing_host_def enoent_host_def stale_host_def quiet_host_def
        listing_refreshed_def)
  have dots: "dot_entries listing_host (path (store tmp_Provider 0))
      = [statDirEntry ''.'' \<lparr>Mode = 0, Ino = 0\<rparr>, statDirEntry ''..'' \<lparr>Mode = 0, Ino = 0\<rparr>]"
    by (simp add: dot_entries_def listing_host_def quiet_host_def)
  have bytes: "listing_bytes [file_a, file_bb] 0 1 = 25" "listing_bytes [file_a, file_bb] 0 2 = 51"
    by (simp_all add: listing_bytes_def entry_bytes_def sizeof_DirEntry_def file_a_def
        file_bb_def upt_conv_Cons)
  have gone: "\<not> info_ok gone_b"
    by (simp add: info_ok_def gone_b_def)
  have einval: "FDReadDir listing_host regular tmp_Provider 0 [] 30 (push_bit 63 1)
       = (([], EINVAL), tmp_Provider, [])"
    using FDReadDir_listing [OF lookup_readdir_tmp, where h = listing_host
        and makeFileType = regular and buffer = "[]" and bufferSizeBytes = 30
        and cookie = "push_bit 63 1"] big
    by (simp add: Let_def)
  have enoent: "FDReadDir enoent_host regular tmp_Provider 0 [] 30 0
       = (([], ENOENT), tmp_Provider, [OsReadDir ''/tmp''])"
    using FDReadDir_listing [OF lookup_readdir_tmp, where h = enoent_host
        and makeFileType = regular and buffer = "[]" and bufferSizeBytes = 30
        and cookie = 0 and err = HENOENT] host
    by (simp add: Let_def makeErrno_def tmp_Provider_eval)
  have cache: "dirEntries (store (fst (snd (FDReadDir listing_host regular tmp_Provider 0 [] 30 0))) 0)
       = [file_a, file_bb, statDirEntry ''.'' \<lparr>Mode = 0, Ino = 0\<rparr>,
          statDirEntry ''..'' \<lparr>Mode = 0, Ino = 0\<rparr>]"
    using FDReadDir_listing [OF lookup_readdir_tmp, where h = listing_host
        and makeFileType = regular and buffer = "[]" and bufferSizeBytes = 30
        and cookie = 0 and es = "[file_a, file_bb]"] host
    by (simp add: Let_def dots)
  show ?thesis
    by (intro conjI lookup_readdir_tmp lookup_readdir_listed host big small cache bytes enoent
        einval gone readdir_listed_resume)
      (simp_all add: readdir_tmp_restart readdir_stale_limit readdir_stale_fails)
qed

text \<open>
  C8 as stated fails when the host does: if the host listing fails the call returns its
  error and the cached listing is as before, with no \<open>.\<close> and \<open>..\<close>; if the parent
  directory cannot be stat'ed, \<open>..\<close> is not in the refreshed listing; if \<open>Info()\<close> fails
  on the second entry, the call stops there with that error, although the limit is not
  reached and the listing is not exhausted.
\<close>

theorem FDReadDir_host_failures:
  "lookupFD tmp_Provider 0 FDReadDirRight = Inr 0
   \<and> FDReadDir enoent_host regular tmp_Provider 0 [] 30 0
       = (([], ENOENT), tmp_Provider, [OsReadDir ''/tmp''])
   \<and> dirEntries (store tmp_Provider 0) = []
   \<and> dirEntries (store (fst (snd (FDReadDir noparent_host regular tmp_Provider 0 [] 30 0))) 0)
       = [file_a, file_bb, statDirEntry ''.'' \<lparr>Mode = 0, Ino = 1\<rparr>]
   \<and> dirEntries (store (fst (snd (FDReadDir stale_host regular tmp_Provider 0 [] 1000 0))) 0)
       = [file_a, gone_b, statDirEntry ''.'' \<lparr>Mode = 0, Ino = 0\<rparr>,
          statDirEntry ''..'' \<lparr>Mode = 0, Ino = 0\<rparr>]
   \<and> fst (FDReadDir stale_host regular tmp_Provider 0 [] 1000 0) = ([out_a], ENOENT)"
  by (simp add: FDReadDir_def lookup_readdir_tmp readdir_restart_def with_dot_entries_def
      tmp_Provider_eval Join_tmp_dotdot noparent_host_def enoent_host_def listing_host_def
      stale_host_def quiet_host_def set_dirEntries_def makeErrno_def MaxInt_def
      readdir_loop.simps file_a_def gone_b_def make_DirEntryName_def regular_def
      sizeof_DirEntry_def out_a_def Let_def)

end
